theory Spec2Isabelle
  imports Main "HOL-Library.Word" "HOL-Library.Code_Target_Numeral"
begin

section \<open>Epoch-transition accounting (Altair precompute)\<close>

text \<open>
  A shallow embedding of \<^verbatim>\<open>beacon-chain/core/altair/epoch_precompute.go\<close>,
  \<^verbatim>\<open>beacon-chain/core/altair/epoch_spec.go\<close> and
  \<^verbatim>\<open>beacon-chain/core/epoch/precompute/slashing.go\<close>.
  Go's \<^verbatim>\<open>uint64\<close> is \<open>64 word\<close>: addition, subtraction and multiplication wrap.
  A Go run-time panic (integer division by zero, index out of range) is an error value of
  its own, so that every division and every slice access of the source is a branch here.
\<close>

type_synonym u64 = "64 word"
type_synonym u8 = "8 word"

datatype error =
    PanicDivideByZero
  | PanicIndexOutOfRange
  | ErrInconsistent
  | ErrContainer
  | ErrExternal

definition bind_err :: "error + 'a \<Rightarrow> ('a \<Rightarrow> error + 'b) \<Rightarrow> error + 'b" where
  "bind_err m f = (case m of Inl e \<Rightarrow> Inl e | Inr x \<Rightarrow> f x)"

subsection \<open>Protocol constants\<close>

text \<open>
  \<^verbatim>\<open>params.BeaconConfig()\<close> is not among the sources: the constants the code reads
  from it are the fields of a record that every function takes as a parameter.
\<close>

record BeaconConfig =
  GenesisEpoch :: u64
  EffectiveBalanceIncrement :: u64
  BaseRewardFactor :: u64
  WeightDenominator :: u64
  TimelySourceWeight :: u64
  TimelyTargetWeight :: u64
  TimelyHeadWeight :: u64
  TimelySourceFlagIndex :: u8
  TimelyTargetFlagIndex :: u8
  TimelyHeadFlagIndex :: u8
  InactivityScoreBias :: u64
  InactivityScoreRecoveryRate :: u64
  InactivityPenaltyQuotientAltair :: u64
  ProportionalSlashingMultiplier :: u64
  EpochsPerSlashingsVector :: u64
  EpochsPerSyncCommitteePeriod :: u64
  MinEpochsToInactivityPenalty :: u64

subsection \<open>Data model\<close>

text \<open>\<^verbatim>\<open>precompute.Validator\<close>: the per-validator record, as far as the code uses it.\<close>

record Validator =
  IsSlashed :: bool
  IsWithdrawableCurrentEpoch :: bool
  IsActiveCurrentEpoch :: bool
  IsActivePrevEpoch :: bool
  IsCurrentEpochTargetAttester :: bool
  IsPrevEpochAttester :: bool
  IsPrevEpochTargetAttester :: bool
  IsPrevEpochHeadAttester :: bool
  CurrentEpochEffectiveBalance :: u64
  InactivityScore :: u64
  BeforeEpochTransitionBalance :: u64
  AfterEpochTransitionBalance :: u64

text \<open>\<^verbatim>\<open>precompute.Balance\<close>: the per-epoch accumulator.\<close>

record Balance =
  ActiveCurrentEpoch :: u64
  ActivePrevEpoch :: u64
  PrevEpochAttested :: u64
  PrevEpochTargetAttested :: u64
  PrevEpochHeadAttested :: u64

text \<open>A registry entry (\<^verbatim>\<open>ethpb.Validator\<close>), with the fields the pipeline reads.\<close>

record RegistryValidator =
  EffectiveBalance :: u64
  Slashed :: bool
  ActivationEpoch :: u64
  ExitEpoch :: u64
  WithdrawableEpoch :: u64

text \<open>
  A sync committee is only moved around here, never looked into: the ordered list of its
  members.
\<close>

type_synonym SyncCommittee = "nat list"

text \<open>
  Modelled from the spec: the state container (\<^verbatim>\<open>state.BeaconStateAltair\<close>) is an
  interface whose implementation is not among the sources. Section 6 of the specification
  lists what the pipeline reads and writes; each item is a field. The current epoch is
  "derived externally from slot" and is a field as well. Getters hand out copies and
  setters replace a field, so the container has no aliasing with the pipeline's own lists.
\<close>

record BeaconState =
  currentEpoch :: u64
  validators :: "RegistryValidator list"
  balances :: "u64 list"
  inactivityScores :: "u64 list"
  currentEpochParticipation :: "u8 list"
  previousEpochParticipation :: "u8 list"
  slashings :: "u64 list"
  finalizedCheckpointEpoch :: u64
  currentSyncCommittee :: SyncCommittee
  nextSyncCommittee :: SyncCommittee

subsection \<open>Helpers that are not among the sources\<close>

text \<open>Modelled from the spec: \<^verbatim>\<open>core.CurrentEpoch\<close>, the container's epoch number.\<close>

definition CurrentEpoch :: "BeaconState \<Rightarrow> u64" where
  "CurrentEpoch st = currentEpoch st"

text \<open>
  Modelled from the spec: \<^verbatim>\<open>core.PrevEpoch\<close>, the epoch before the current one; the
  genesis epoch 0 is its own predecessor.
\<close>

definition PrevEpoch :: "BeaconState \<Rightarrow> u64" where
  "PrevEpoch st = (if CurrentEpoch st = 0 then 0 else CurrentEpoch st - 1)"

text \<open>Modelled from the spec: \<^verbatim>\<open>core.NextEpoch\<close>, \<open>currentEpoch + 1\<close> (section 4.6).\<close>

definition NextEpoch :: "BeaconState \<Rightarrow> u64" where
  "NextEpoch st = CurrentEpoch st + 1"

text \<open>
  Modelled from the spec: \<^verbatim>\<open>helpers.IsActiveValidatorUsingTrie\<close>, "the standard
  activation/exit-epoch bracket check" of section 4.1.
\<close>

definition IsActiveValidatorUsingTrie :: "RegistryValidator \<Rightarrow> u64 \<Rightarrow> bool" where
  "IsActiveValidatorUsingTrie val epoch \<longleftrightarrow> ActivationEpoch val \<le> epoch \<and> epoch < ExitEpoch val"

text \<open>
  Modelled from the spec: \<^verbatim>\<open>helpers.IsInInactivityLeak\<close>. Section 4.3: the chain is not
  in a leak when "previous epoch minus last-finalized-checkpoint epoch is within the
  protocol's leak threshold". The subtraction is a \<^verbatim>\<open>uint64\<close> one.
\<close>

definition IsInInactivityLeak :: "BeaconConfig \<Rightarrow> u64 \<Rightarrow> u64 \<Rightarrow> bool" where
  "IsInInactivityLeak cfg prevEpoch finalizedEpoch \<longleftrightarrow>
     prevEpoch - finalizedEpoch > MinEpochsToInactivityPenalty cfg"

text \<open>
  Modelled from the spec: \<^verbatim>\<open>precompute.EligibleForRewards\<close>, the eligibility of section
  4.3: \<open>isActivePrevEpoch OR (isSlashed AND NOT isWithdrawableCurrentEpoch)\<close>.
\<close>

definition EligibleForRewards :: "Validator \<Rightarrow> bool" where
  "EligibleForRewards v \<longleftrightarrow>
     IsActivePrevEpoch v \<or> (IsSlashed v \<and> \<not> IsWithdrawableCurrentEpoch v)"

text \<open>
  Modelled from the spec: \<^verbatim>\<open>helpers.IncreaseBalanceWithVal\<close> and
  \<^verbatim>\<open>helpers.DecreaseBalanceWithVal\<close> (section 4.4): the balance is increased by the
  reward, and a decrease below zero saturates at zero.
\<close>

definition IncreaseBalanceWithVal :: "u64 \<Rightarrow> u64 \<Rightarrow> u64" where
  "IncreaseBalanceWithVal currBalance delta = currBalance + delta"

definition DecreaseBalanceWithVal :: "u64 \<Rightarrow> u64 \<Rightarrow> u64" where
  "DecreaseBalanceWithVal currBalance delta =
     (if delta > currBalance then 0 else currBalance - delta)"

text \<open>
  Modelled from the spec: \<^verbatim>\<open>mathutil.Min\<close>, the smaller of two \<^verbatim>\<open>uint64\<close> values.
\<close>

definition Min_u64 :: "u64 \<Rightarrow> u64 \<Rightarrow> u64" where
  "Min_u64 a b = (if a > b then b else a)"

subsection \<open>The per-validator attestation delta\<close>

text \<open>
  The statements \<^verbatim>\<open>reward += n / d\<close> and \<^verbatim>\<open>penalty += n / d\<close> of
  \<^verbatim>\<open>attestationDelta\<close>: the division panics on a zero divisor.
\<close>

definition add_reward :: "u64 \<Rightarrow> u64 \<Rightarrow> u64 \<times> u64 \<Rightarrow> error + u64 \<times> u64" where
  "add_reward n d rp =
     (if d = 0 then Inl PanicDivideByZero else Inr (fst rp + n div d, snd rp))"

definition add_penalty :: "u64 \<Rightarrow> u64 \<Rightarrow> u64 \<times> u64 \<Rightarrow> error + u64 \<times> u64" where
  "add_penalty n d rp =
     (if d = 0 then Inl PanicDivideByZero else Inr (fst rp, snd rp + n div d))"

text \<open>
  \<^verbatim>\<open>attestationDelta\<close> (epoch\_precompute.go, lines 242-300). The result is the pair
  \<open>(reward, penalty)\<close>. The four blocks of the source (source, target, head, finality
  delay) run in that order on the pair, which starts at \<open>(0, 0)\<close>.
\<close>

definition attestationDelta ::
  "BeaconConfig \<Rightarrow> Balance \<Rightarrow> Validator \<Rightarrow> u64 \<Rightarrow> u64 \<Rightarrow> bool \<Rightarrow> error + u64 \<times> u64" where
  "attestationDelta cfg bal v baseRewardMultiplier inactivityDenominator inactivityLeak =
    (let eligible = (IsActivePrevEpoch v \<or> (IsSlashed v \<and> \<not> IsWithdrawableCurrentEpoch v)) in
     if \<not> eligible \<or> ActiveCurrentEpoch bal = 0 then Inr (0, 0)
     else
      let increment = EffectiveBalanceIncrement cfg;
          effectiveBalance = CurrentEpochEffectiveBalance v
      in
      if increment = 0 then Inl PanicDivideByZero
      else
       let baseReward = (effectiveBalance div increment) * baseRewardMultiplier;
           activeIncrement = ActiveCurrentEpoch bal div increment;
           weightDenominator = WeightDenominator cfg;
           srcWeight = TimelySourceWeight cfg;
           tgtWeight = TimelyTargetWeight cfg;
           headWeight = TimelyHeadWeight cfg
       in
       bind_err (bind_err (bind_err (bind_err (Inr (0, 0))
        (\<lambda>rp. if IsPrevEpochAttester v \<and> \<not> IsSlashed v
               then (if \<not> inactivityLeak
                     then add_reward (baseReward * srcWeight * (PrevEpochAttested bal div increment))
                            (activeIncrement * weightDenominator) rp
                     else Inr rp)
               else add_penalty (baseReward * srcWeight) weightDenominator rp))
        (\<lambda>rp. if IsPrevEpochTargetAttester v \<and> \<not> IsSlashed v
               then (if \<not> inactivityLeak
                     then add_reward (baseReward * tgtWeight * (PrevEpochTargetAttested bal div increment))
                            (activeIncrement * weightDenominator) rp
                     else Inr rp)
               else add_penalty (baseReward * tgtWeight) weightDenominator rp))
        (\<lambda>rp. if IsPrevEpochHeadAttester v \<and> \<not> IsSlashed v
               then (if \<not> inactivityLeak
                     then add_reward (baseReward * headWeight * (PrevEpochHeadAttested bal div increment))
                            (activeIncrement * weightDenominator) rp
                     else Inr rp)
               else Inr rp))
        (\<lambda>rp. if \<not> IsPrevEpochTargetAttester v \<or> IsSlashed v
               then add_penalty (effectiveBalance * InactivityScore v) inactivityDenominator rp
               else Inr rp))"

text \<open>
  Modelled from the spec: \<^verbatim>\<open>mathutil.IntegerSquareRoot\<close>, the "integer square root,
  floored" of section 4.4. The root of a 64-bit value has at most 32 bits; they are
  decided from the highest to the lowest.
\<close>

primrec sqrt_bits :: "nat \<Rightarrow> nat \<Rightarrow> nat \<Rightarrow> nat" where
  "sqrt_bits 0 n r = r"
| "sqrt_bits (Suc k) n r =
     sqrt_bits k n (if (r + 2 ^ k) * (r + 2 ^ k) \<le> n then r + 2 ^ k else r)"

definition IntegerSquareRoot :: "u64 \<Rightarrow> u64" where
  "IntegerSquareRoot n = of_nat (sqrt_bits 32 (unat n) 0)"

text \<open>
  \<^verbatim>\<open>AttestationsDelta\<close> (epoch\_precompute.go, lines 221-240). Both result lists have
  \<^verbatim>\<open>state.NumValidators()\<close> entries; the loop runs over \<^verbatim>\<open>vals\<close> and writes at
  the index of each entry.
\<close>

fun AttestationsDelta_loop ::
  "BeaconConfig \<Rightarrow> Balance \<Rightarrow> u64 \<Rightarrow> u64 \<Rightarrow> bool \<Rightarrow> nat \<Rightarrow> Validator list \<Rightarrow>
   u64 list \<times> u64 list \<Rightarrow> error + u64 list \<times> u64 list" where
  "AttestationsDelta_loop cfg bal baseRewardMultiplier inactivityDenominator leak i [] rp = Inr rp"
| "AttestationsDelta_loop cfg bal baseRewardMultiplier inactivityDenominator leak i (v # vs) rp =
     (case attestationDelta cfg bal v baseRewardMultiplier inactivityDenominator leak of
        Inl e \<Rightarrow> Inl e
      | Inr d \<Rightarrow>
          if i < length (fst rp) \<and> i < length (snd rp)
          then AttestationsDelta_loop cfg bal baseRewardMultiplier inactivityDenominator leak (Suc i) vs
                 ((fst rp)[i := fst d], (snd rp)[i := snd d])
          else Inl PanicIndexOutOfRange)"

definition AttestationsDelta ::
  "BeaconConfig \<Rightarrow> BeaconState \<Rightarrow> Balance \<Rightarrow> Validator list \<Rightarrow> error + u64 list \<times> u64 list" where
  "AttestationsDelta cfg st bal vals =
    (let numOfVals = length (validators st);
         rewards = replicate numOfVals 0;
         penalties = replicate numOfVals 0;
         prevEpoch = PrevEpoch st;
         finalizedEpoch = finalizedCheckpointEpoch st;
         increment = EffectiveBalanceIncrement cfg;
         factor = BaseRewardFactor cfg
     in
     if IntegerSquareRoot (ActiveCurrentEpoch bal) = 0 then Inl PanicDivideByZero
     else
      let baseRewardMultiplier = increment * factor div IntegerSquareRoot (ActiveCurrentEpoch bal);
          leak = IsInInactivityLeak cfg prevEpoch finalizedEpoch;
          inactivityDenominator = InactivityScoreBias cfg * InactivityPenaltyQuotientAltair cfg
      in AttestationsDelta_loop cfg bal baseRewardMultiplier inactivityDenominator leak 0 vals
           (rewards, penalties))"

subsection \<open>Applying rewards and penalties\<close>

text \<open>
  The loop \<^verbatim>\<open>for i := 0; i < numOfVals; i++\<close> of
  \<^verbatim>\<open>ProcessRewardsAndPenaltiesPrecompute\<close>; the first argument counts the iterations
  that are left.
\<close>

fun ProcessRewardsAndPenaltiesPrecompute_loop ::
  "nat \<Rightarrow> nat \<Rightarrow> u64 list \<Rightarrow> u64 list \<Rightarrow> Validator list \<times> u64 list \<Rightarrow>
   error + Validator list \<times> u64 list" where
  "ProcessRewardsAndPenaltiesPrecompute_loop 0 i attsRewards attsPenalties vb = Inr vb"
| "ProcessRewardsAndPenaltiesPrecompute_loop (Suc k) i attsRewards attsPenalties vb =
     (if i < length (fst vb) \<and> i < length (snd vb) \<and> i < length attsRewards \<and> i < length attsPenalties
      then
        let balBefore = snd vb ! i;
            increased = IncreaseBalanceWithVal balBefore (attsRewards ! i);
            balAfter = DecreaseBalanceWithVal increased (attsPenalties ! i)
        in ProcessRewardsAndPenaltiesPrecompute_loop k (Suc i) attsRewards attsPenalties
             ((fst vb)[i := (fst vb ! i)\<lparr>BeforeEpochTransitionBalance := balBefore,
                                        AfterEpochTransitionBalance := balAfter\<rparr>],
              (snd vb)[i := balAfter])
      else Inl PanicIndexOutOfRange)"

text \<open>
  \<^verbatim>\<open>ProcessRewardsAndPenaltiesPrecompute\<close> (lines 179-217). The entries of
  \<^verbatim>\<open>vals\<close> are written through pointers, so the updated list is part of the result.
\<close>

definition ProcessRewardsAndPenaltiesPrecompute ::
  "BeaconConfig \<Rightarrow> BeaconState \<Rightarrow> Balance \<Rightarrow> Validator list \<Rightarrow>
   error + BeaconState \<times> Validator list" where
  "ProcessRewardsAndPenaltiesPrecompute cfg st bal vals =
    (if CurrentEpoch st = 0 then Inr (st, vals)
     else
      let numOfVals = length (validators st) in
      if length vals \<noteq> numOfVals \<or> length vals \<noteq> length (balances st) then Inl ErrInconsistent
      else
       (case AttestationsDelta cfg st bal vals of
          Inl e \<Rightarrow> Inl e
        | Inr d \<Rightarrow>
            (case ProcessRewardsAndPenaltiesPrecompute_loop numOfVals 0 (fst d) (snd d)
                    (vals, balances st) of
               Inl e \<Rightarrow> Inl e
             | Inr vb \<Rightarrow> Inr (st\<lparr>balances := snd vb\<rparr>, fst vb))))"

subsection \<open>The validator snapshot\<close>

text \<open>
  The callback of \<^verbatim>\<open>ReadFromEveryValidator\<close> in \<^verbatim>\<open>InitializeEpochValidators\<close>
  (lines 36-58), run over the registry in index order.
\<close>

fun InitializeEpochValidators_loop ::
  "u64 \<Rightarrow> u64 \<Rightarrow> u64 list \<Rightarrow> nat \<Rightarrow> RegistryValidator list \<Rightarrow> Balance \<Rightarrow>
   error + Validator list \<times> Balance" where
  "InitializeEpochValidators_loop currentEp prevEp scores idx [] bal = Inr ([], bal)"
| "InitializeEpochValidators_loop currentEp prevEp scores idx (val # rest) bal =
     (if idx < length scores
      then
        let withdrawable = (currentEp \<ge> WithdrawableEpoch val);
            pVal = \<lparr> IsSlashed = Slashed val,
                     IsWithdrawableCurrentEpoch = withdrawable,
                     IsActiveCurrentEpoch = IsActiveValidatorUsingTrie val currentEp,
                     IsActivePrevEpoch = IsActiveValidatorUsingTrie val prevEp,
                     IsCurrentEpochTargetAttester = False,
                     IsPrevEpochAttester = False,
                     IsPrevEpochTargetAttester = False,
                     IsPrevEpochHeadAttester = False,
                     CurrentEpochEffectiveBalance = EffectiveBalance val,
                     InactivityScore = scores ! idx,
                     BeforeEpochTransitionBalance = 0,
                     AfterEpochTransitionBalance = 0 \<rparr>;
            bal1 = (if IsActiveValidatorUsingTrie val currentEp
                    then bal\<lparr>ActiveCurrentEpoch := ActiveCurrentEpoch bal + EffectiveBalance val\<rparr>
                    else bal);
            bal2 = (if IsActiveValidatorUsingTrie val prevEp
                    then bal1\<lparr>ActivePrevEpoch := ActivePrevEpoch bal1 + EffectiveBalance val\<rparr>
                    else bal1)
        in (case InitializeEpochValidators_loop currentEp prevEp scores (Suc idx) rest bal2 of
              Inl e \<Rightarrow> Inl e
            | Inr r \<Rightarrow> Inr (pVal # fst r, snd r))
      else Inl PanicIndexOutOfRange)"

text \<open>\<^verbatim>\<open>InitializeEpochValidators\<close> (lines 19-62).\<close>

definition InitializeEpochValidators :: "BeaconState \<Rightarrow> error + Validator list \<times> Balance" where
  "InitializeEpochValidators st =
    (let prevEp = PrevEpoch st;
         currentEp = CurrentEpoch st;
         scores = inactivityScores st
     in
     if length (validators st) > length scores then Inl ErrInconsistent
     else InitializeEpochValidators_loop currentEp prevEp scores 0 (validators st)
            \<lparr> ActiveCurrentEpoch = 0, ActivePrevEpoch = 0, PrevEpochAttested = 0,
              PrevEpochTargetAttested = 0, PrevEpochHeadAttested = 0 \<rparr>)"

subsection \<open>Participation flags\<close>

text \<open>
  Modelled from the spec: \<^verbatim>\<open>HasValidatorFlag\<close>, the bit-mask membership test on a
  participation byte (sections 4.2 and 9): the bit at the flag's position is set.
\<close>

definition HasValidatorFlag :: "u8 \<Rightarrow> u8 \<Rightarrow> bool" where
  "HasValidatorFlag flag flagPosition \<longleftrightarrow> bit flag (unat flagPosition)"

text \<open>
  Modelled from the spec: \<^verbatim>\<open>precompute.UpdateBalance\<close>. Section 4.2: the three
  attested totals are recomputed "as the sum of effective balances of validators with the
  corresponding flag set", slashed validators included.
\<close>

definition UpdateBalance :: "Validator list \<Rightarrow> Balance \<Rightarrow> Balance" where
  "UpdateBalance vals bal = bal
     \<lparr> PrevEpochAttested :=
         sum_list (map CurrentEpochEffectiveBalance (filter IsPrevEpochAttester vals)),
       PrevEpochTargetAttested :=
         sum_list (map CurrentEpochEffectiveBalance (filter IsPrevEpochTargetAttester vals)),
       PrevEpochHeadAttested :=
         sum_list (map CurrentEpochEffectiveBalance (filter IsPrevEpochHeadAttester vals)) \<rparr>"

text \<open>
  One statement \<^verbatim>\<open>if HasValidatorFlag(b, idx) && vals[i].Active { vals[i].Flag = true }\<close>:
  \<^verbatim>\<open>&&\<close> reads \<^verbatim>\<open>vals[i]\<close> only when the flag bit is set, and that read panics
  when \<open>i\<close> is past the end of \<^verbatim>\<open>vals\<close>.
\<close>

definition mark_attester ::
  "u8 \<Rightarrow> u8 \<Rightarrow> nat \<Rightarrow> (Validator \<Rightarrow> bool) \<Rightarrow> (Validator \<Rightarrow> Validator) \<Rightarrow> Validator list \<Rightarrow>
   error + Validator list" where
  "mark_attester b flagIdx i active setFlag vals =
     (if HasValidatorFlag b flagIdx
      then (if i < length vals
            then Inr (if active (vals ! i) then vals[i := setFlag (vals ! i)] else vals)
            else Inl PanicIndexOutOfRange)
      else Inr vals)"

text \<open>The loop over \<^verbatim>\<open>cp\<close> (lines 153-157).\<close>

fun currentParticipation_loop ::
  "BeaconConfig \<Rightarrow> nat \<Rightarrow> u8 list \<Rightarrow> Validator list \<Rightarrow> error + Validator list" where
  "currentParticipation_loop cfg i [] vals = Inr vals"
| "currentParticipation_loop cfg i (b # bs) vals =
     (case mark_attester b (TimelyTargetFlagIndex cfg) i IsActiveCurrentEpoch
             (\<lambda>v. v\<lparr>IsCurrentEpochTargetAttester := True\<rparr>) vals of
        Inl e \<Rightarrow> Inl e
      | Inr vals1 \<Rightarrow> currentParticipation_loop cfg (Suc i) bs vals1)"

text \<open>The loop over \<^verbatim>\<open>pp\<close> (lines 162-172).\<close>

fun previousParticipation_loop ::
  "BeaconConfig \<Rightarrow> nat \<Rightarrow> u8 list \<Rightarrow> Validator list \<Rightarrow> error + Validator list" where
  "previousParticipation_loop cfg i [] vals = Inr vals"
| "previousParticipation_loop cfg i (b # bs) vals =
     (case bind_err (bind_err
             (mark_attester b (TimelySourceFlagIndex cfg) i IsActivePrevEpoch
                (\<lambda>v. v\<lparr>IsPrevEpochAttester := True\<rparr>) vals)
             (mark_attester b (TimelyTargetFlagIndex cfg) i IsActivePrevEpoch
                (\<lambda>v. v\<lparr>IsPrevEpochTargetAttester := True\<rparr>)))
             (mark_attester b (TimelyHeadFlagIndex cfg) i IsActivePrevEpoch
                (\<lambda>v. v\<lparr>IsPrevEpochHeadAttester := True\<rparr>)) of
        Inl e \<Rightarrow> Inl e
      | Inr vals1 \<Rightarrow> previousParticipation_loop cfg (Suc i) bs vals1)"

text \<open>\<^verbatim>\<open>ProcessEpochParticipation\<close> (lines 136-175).\<close>

definition ProcessEpochParticipation ::
  "BeaconConfig \<Rightarrow> BeaconState \<Rightarrow> Balance \<Rightarrow> Validator list \<Rightarrow> error + Validator list \<times> Balance" where
  "ProcessEpochParticipation cfg st bal vals =
    (case currentParticipation_loop cfg 0 (currentEpochParticipation st) vals of
       Inl e \<Rightarrow> Inl e
     | Inr vals1 \<Rightarrow>
        (case previousParticipation_loop cfg 0 (previousEpochParticipation st) vals1 of
           Inl e \<Rightarrow> Inl e
         | Inr vals2 \<Rightarrow> Inr (vals2, UpdateBalance vals2 bal)))"

subsection \<open>Inactivity scores\<close>

text \<open>
  The body of the loop of \<^verbatim>\<open>ProcessInactivityScores\<close> for an eligible validator
  (lines 99-115): the new value of \<^verbatim>\<open>v.InactivityScore\<close>.
\<close>

definition updated_inactivity_score :: "BeaconConfig \<Rightarrow> bool \<Rightarrow> Validator \<Rightarrow> u64" where
  "updated_inactivity_score cfg leak v =
    (let bias = InactivityScoreBias cfg;
         recoveryRate = InactivityScoreRecoveryRate cfg;
         s1 = (if IsPrevEpochTargetAttester v \<and> \<not> IsSlashed v
               then (if InactivityScore v > 0 then InactivityScore v - 1 else InactivityScore v)
               else InactivityScore v + bias)
     in
     if \<not> leak
     then (let score = (if recoveryRate > s1 then s1 else recoveryRate) in s1 - score)
     else s1)"

text \<open>
  The loop \<^verbatim>\<open>for i, v := range vals\<close> (lines 94-117); the write
  \<^verbatim>\<open>inactivityScores[i] = v.InactivityScore\<close> panics past the end of the list.
\<close>

fun ProcessInactivityScores_loop ::
  "BeaconConfig \<Rightarrow> bool \<Rightarrow> nat \<Rightarrow> Validator list \<Rightarrow> u64 list \<Rightarrow> error + Validator list \<times> u64 list" where
  "ProcessInactivityScores_loop cfg leak i [] scores = Inr ([], scores)"
| "ProcessInactivityScores_loop cfg leak i (v # vs) scores =
     (if \<not> EligibleForRewards v
      then (case ProcessInactivityScores_loop cfg leak (Suc i) vs scores of
              Inl e \<Rightarrow> Inl e
            | Inr r \<Rightarrow> Inr (v # fst r, snd r))
      else
        let v1 = v\<lparr>InactivityScore := updated_inactivity_score cfg leak v\<rparr> in
        if i < length scores
        then (case ProcessInactivityScores_loop cfg leak (Suc i) vs
                     (scores[i := InactivityScore v1]) of
                Inl e \<Rightarrow> Inl e
              | Inr r \<Rightarrow> Inr (v1 # fst r, snd r))
        else Inl PanicIndexOutOfRange)"

text \<open>\<^verbatim>\<open>ProcessInactivityScores\<close> (lines 72-124).\<close>

definition ProcessInactivityScores ::
  "BeaconConfig \<Rightarrow> BeaconState \<Rightarrow> Validator list \<Rightarrow> error + BeaconState \<times> Validator list" where
  "ProcessInactivityScores cfg st vals =
    (if CurrentEpoch st = GenesisEpoch cfg then Inr (st, vals)
     else
      let scores = inactivityScores st;
          prevEpoch = PrevEpoch st;
          finalizedEpoch = finalizedCheckpointEpoch st
      in
      (case ProcessInactivityScores_loop cfg (IsInInactivityLeak cfg prevEpoch finalizedEpoch)
              0 vals scores of
         Inl e \<Rightarrow> Inl e
       | Inr r \<Rightarrow> Inr (st\<lparr>inactivityScores := snd r\<rparr>, fst r)))"

text \<open>
  The update as section 4.3 of the specification words it: decrement by 1, never below 0,
  or increment by the bias; then, outside a leak, subtract \<open>min(score, recoveryRate)\<close>.
\<close>

definition spec_inactivity_score :: "u64 \<Rightarrow> u64 \<Rightarrow> bool \<Rightarrow> bool \<Rightarrow> bool \<Rightarrow> u64 \<Rightarrow> u64" where
  "spec_inactivity_score bias recoveryRate leak targetAttester slashed score =
    (let s1 = (if targetAttester \<and> \<not> slashed then score - min score 1 else score + bias)
     in if leak then s1 else s1 - min s1 recoveryRate)"

subsection \<open>Slashing penalties\<close>

text \<open>
  Modelled from the spec: \<^verbatim>\<open>helpers.DecreaseBalance\<close>, "a balance decrease with
  floor-at-zero semantics" (section 4.5) on the persisted balance list. The container
  surfaces an error, not a panic, for an index past its balance list (section 6).
\<close>

definition DecreaseBalance :: "BeaconState \<Rightarrow> nat \<Rightarrow> u64 \<Rightarrow> error + BeaconState" where
  "DecreaseBalance s idx delta =
     (if idx < length (balances s)
      then Inr (s\<lparr>balances := (balances s)[idx := DecreaseBalanceWithVal (balances s ! idx) delta]\<rparr>)
      else Inl ErrContainer)"

text \<open>
  The closure \<^verbatim>\<open>validatorFunc\<close> of \<^verbatim>\<open>ProcessSlashingsPrecompute\<close> (lines 47-58),
  with the variables it captures as its first arguments. It never changes the registry
  entry; its effect is the one of \<^verbatim>\<open>DecreaseBalance\<close> on the state.
\<close>

definition validatorFunc ::
  "u64 \<Rightarrow> u64 \<Rightarrow> u64 \<Rightarrow> Balance \<Rightarrow> nat \<Rightarrow> RegistryValidator \<Rightarrow> BeaconState \<Rightarrow> error + BeaconState" where
  "validatorFunc increment epochToWithdraw minSlashing pBal idx val s =
    (let correctEpoch = (epochToWithdraw = WithdrawableEpoch val) in
     if Slashed val \<and> correctEpoch
     then
       if increment = 0 then Inl PanicDivideByZero
       else
        let penaltyNumerator = EffectiveBalance val div increment * minSlashing in
        if ActiveCurrentEpoch pBal = 0 then Inl PanicDivideByZero
        else
         let penalty = penaltyNumerator div ActiveCurrentEpoch pBal * increment
         in DecreaseBalance s idx penalty
     else Inr s)"

text \<open>
  Modelled from the spec: the container's \<^verbatim>\<open>ApplyToEveryValidator\<close>, which calls the
  function on every registry entry in index order and stops at the first error. The state
  is changed in place, so the result is the state reached together with the error, if any.
\<close>

fun ApplyToEveryValidator_loop ::
  "(nat \<Rightarrow> RegistryValidator \<Rightarrow> BeaconState \<Rightarrow> error + BeaconState) \<Rightarrow> nat \<Rightarrow>
   RegistryValidator list \<Rightarrow> BeaconState \<Rightarrow> BeaconState \<times> error option" where
  "ApplyToEveryValidator_loop f idx [] s = (s, None)"
| "ApplyToEveryValidator_loop f idx (val # rest) s =
     (case f idx val s of
        Inl e \<Rightarrow> (s, Some e)
      | Inr s1 \<Rightarrow> ApplyToEveryValidator_loop f (Suc idx) rest s1)"

definition ApplyToEveryValidator ::
  "(nat \<Rightarrow> RegistryValidator \<Rightarrow> BeaconState \<Rightarrow> error + BeaconState) \<Rightarrow> BeaconState \<Rightarrow>
   BeaconState \<times> error option" where
  "ApplyToEveryValidator f s = ApplyToEveryValidator_loop f 0 (validators s) s"

text \<open>
  \<^verbatim>\<open>ProcessSlashingsPrecompute\<close> (slashing.go, lines 15-61). The function returns only
  an error and works on the state in place: the result is the state it leaves behind and
  the error (or panic), if any.
\<close>

definition ProcessSlashingsPrecompute ::
  "BeaconConfig \<Rightarrow> BeaconState \<Rightarrow> Balance \<Rightarrow> BeaconState \<times> error option" where
  "ProcessSlashingsPrecompute cfg s pBal =
    (let currentEp = CurrentEpoch s;
         exitLength = EpochsPerSlashingsVector cfg;
         totalSlashing = fold (\<lambda>slashing total. total + slashing) (slashings s) 0;
         minSlashing = Min_u64 (totalSlashing * ProportionalSlashingMultiplier cfg)
                         (ActiveCurrentEpoch pBal);
         epochToWithdraw = currentEp + exitLength div 2;
         hasSlashing = list_ex (\<lambda>val. Slashed val \<and> epochToWithdraw = WithdrawableEpoch val)
                         (validators s)
     in
     if \<not> hasSlashing then (s, None)
     else ApplyToEveryValidator
            (validatorFunc (EffectiveBalanceIncrement cfg) epochToWithdraw minSlashing pBal) s)"

text \<open>
  The penalty as section 4.5 of the specification words it:
  \<open>(effectiveBalance / increment * minSlashing) / activeCurrentEpoch * increment\<close> with
  \<open>minSlashing = min(totalSlashings * proportionalSlashingMultiplier, activeCurrentEpoch)\<close>.
\<close>

definition spec_slashing_penalty :: "u64 \<Rightarrow> u64 \<Rightarrow> u64 \<Rightarrow> u64 \<Rightarrow> u64 \<Rightarrow> u64" where
  "spec_slashing_penalty increment multiplier totalSlashings activeCurrentEpoch effectiveBalance =
     (effectiveBalance div increment * min (totalSlashings * multiplier) activeCurrentEpoch)
       div activeCurrentEpoch * increment"

text \<open>The predicate of section 4.5: slashed, and withdrawable at \<open>epochToWithdraw\<close>.\<close>

definition slashing_due :: "BeaconConfig \<Rightarrow> BeaconState \<Rightarrow> RegistryValidator \<Rightarrow> bool" where
  "slashing_due cfg s val \<longleftrightarrow>
     Slashed val \<and>
     WithdrawableEpoch val = CurrentEpoch s + EpochsPerSlashingsVector cfg div 2"

subsection \<open>Epoch boundary rotation\<close>

text \<open>\<^verbatim>\<open>ProcessParticipationFlagUpdates\<close> (epoch\_spec.go, lines 50-62).\<close>

definition ProcessParticipationFlagUpdates :: "BeaconState \<Rightarrow> error + BeaconState" where
  "ProcessParticipationFlagUpdates beaconState =
    (let c = currentEpochParticipation beaconState;
         s1 = beaconState\<lparr>previousEpochParticipation := c\<rparr>;
         s2 = s1\<lparr>currentEpochParticipation := replicate (length (validators s1)) 0\<rparr>
     in Inr s2)"

text \<open>
  \<^verbatim>\<open>ProcessSyncCommitteeUpdates\<close> (epoch\_spec.go, lines 20-42). The committee selection
  \<^verbatim>\<open>NextSyncCommittee\<close> and the cache update \<^verbatim>\<open>helpers.UpdateSyncCommitteeCache\<close> are
  external collaborators and are parameters: the selection yields a committee or fails,
  and the cache update succeeds or fails; a failure is the error \<open>ErrExternal\<close>. The
  remainder operation panics on a zero period.
\<close>

definition ProcessSyncCommitteeUpdates ::
  "BeaconConfig \<Rightarrow> (BeaconState \<Rightarrow> SyncCommittee option) \<Rightarrow> (BeaconState \<Rightarrow> bool) \<Rightarrow>
   BeaconState \<Rightarrow> error + BeaconState" where
  "ProcessSyncCommitteeUpdates cfg NextSyncCommittee UpdateSyncCommitteeCache beaconState =
    (let nextEpoch = NextEpoch beaconState in
     if EpochsPerSyncCommitteePeriod cfg = 0 then Inl PanicDivideByZero
     else if nextEpoch mod EpochsPerSyncCommitteePeriod cfg = 0
     then
       let s1 = beaconState\<lparr>currentSyncCommittee := nextSyncCommittee beaconState\<rparr> in
       (case NextSyncCommittee s1 of
          None \<Rightarrow> Inl ErrExternal
        | Some committee \<Rightarrow>
            let s2 = s1\<lparr>nextSyncCommittee := committee\<rparr> in
            if UpdateSyncCommitteeCache s2 then Inr s2 else Inl ErrExternal)
     else Inr beaconState)"

subsection \<open>The sequence of steps\<close>

text \<open>
  Modelled from the spec: the driver that runs the steps is not among the sources. Section
  2 gives the order: snapshot, participation flags, inactivity scores, rewards and
  penalties, slashing penalties, and the two rotations.
\<close>

definition ProcessEpoch ::
  "BeaconConfig \<Rightarrow> (BeaconState \<Rightarrow> SyncCommittee option) \<Rightarrow> (BeaconState \<Rightarrow> bool) \<Rightarrow>
   BeaconState \<Rightarrow> error + BeaconState" where
  "ProcessEpoch cfg NextSyncCommittee UpdateSyncCommitteeCache st =
    bind_err (InitializeEpochValidators st) (\<lambda>vb.
    bind_err (ProcessEpochParticipation cfg st (snd vb) (fst vb)) (\<lambda>vb1.
    bind_err (ProcessInactivityScores cfg st (fst vb1)) (\<lambda>sv.
    bind_err (ProcessRewardsAndPenaltiesPrecompute cfg (fst sv) (snd vb1) (snd sv)) (\<lambda>sv1.
    (case ProcessSlashingsPrecompute cfg (fst sv1) (snd vb1) of
       (s3, Some e) \<Rightarrow> Inl e
     | (s3, None) \<Rightarrow>
         bind_err (ProcessParticipationFlagUpdates s3)
           (ProcessSyncCommitteeUpdates cfg NextSyncCommittee UpdateSyncCommitteeCache))))))"

subsection \<open>The penalty as the specification words it\<close>

text \<open>
  Section 4.4: a missed (or slashed) source vote and a missed (or slashed) target vote each
  add \<open>baseReward * W / D\<close>, a missed target vote (or a slashing) adds the inactivity term
  \<open>effectiveBalance * inactivityScore / inactivityDenominator\<close>, and the head vote adds
  nothing.
\<close>

definition spec_penalty :: "BeaconConfig \<Rightarrow> Validator \<Rightarrow> u64 \<Rightarrow> u64 \<Rightarrow> u64" where
  "spec_penalty cfg v baseRewardMultiplier inactivityDenominator =
    (let baseReward =
           (CurrentEpochEffectiveBalance v div EffectiveBalanceIncrement cfg) * baseRewardMultiplier
     in
       (if IsPrevEpochAttester v \<and> \<not> IsSlashed v then 0
        else baseReward * TimelySourceWeight cfg div WeightDenominator cfg)
     + (if IsPrevEpochTargetAttester v \<and> \<not> IsSlashed v then 0
        else baseReward * TimelyTargetWeight cfg div WeightDenominator cfg)
     + (if \<not> IsPrevEpochTargetAttester v \<or> IsSlashed v
        then CurrentEpochEffectiveBalance v * InactivityScore v div inactivityDenominator
        else 0))"

subsection \<open>Example inputs\<close>

text \<open>
  A configuration with the values of the Ethereum mainnet preset, and with the
  proportional slashing multiplier 3 of the specification's slashing example.
\<close>

definition exampleConfig :: BeaconConfig where
  "exampleConfig = \<lparr>
     GenesisEpoch = 0,
     EffectiveBalanceIncrement = 1000000000,
     BaseRewardFactor = 64,
     WeightDenominator = 64,
     TimelySourceWeight = 14,
     TimelyTargetWeight = 26,
     TimelyHeadWeight = 14,
     TimelySourceFlagIndex = 0,
     TimelyTargetFlagIndex = 1,
     TimelyHeadFlagIndex = 2,
     InactivityScoreBias = 4,
     InactivityScoreRecoveryRate = 16,
     InactivityPenaltyQuotientAltair = 50331648,
     ProportionalSlashingMultiplier = 3,
     EpochsPerSlashingsVector = 8192,
     EpochsPerSyncCommitteePeriod = 256,
     MinEpochsToInactivityPenalty = 4 \<rparr>"

text \<open>Two active validators of 32 units each, one of which attested.\<close>

definition exampleBalance :: Balance where
  "exampleBalance = \<lparr>
     ActiveCurrentEpoch = 64000000000,
     ActivePrevEpoch = 64000000000,
     PrevEpochAttested = 32000000000,
     PrevEpochTargetAttested = 32000000000,
     PrevEpochHeadAttested = 32000000000 \<rparr>"

text \<open>A validator that was active in the previous epoch and did not attest.\<close>

definition idleValidator :: Validator where
  "idleValidator = \<lparr>
     IsSlashed = False,
     IsWithdrawableCurrentEpoch = False,
     IsActiveCurrentEpoch = True,
     IsActivePrevEpoch = True,
     IsCurrentEpochTargetAttester = False,
     IsPrevEpochAttester = False,
     IsPrevEpochTargetAttester = False,
     IsPrevEpochHeadAttester = False,
     CurrentEpochEffectiveBalance = 32000000000,
     InactivityScore = 0,
     BeforeEpochTransitionBalance = 0,
     AfterEpochTransitionBalance = 0 \<rparr>"

text \<open>A registry entry that is active from epoch 0 on and was never slashed.\<close>

definition activeEntry :: RegistryValidator where
  "activeEntry = \<lparr>
     EffectiveBalance = 32000000000,
     Slashed = False,
     ActivationEpoch = 0,
     ExitEpoch = 18446744073709551615,
     WithdrawableEpoch = 18446744073709551615 \<rparr>"

text \<open>
  A registry entry that was slashed and becomes withdrawable at epoch 4097, which is
  \<open>1 + 8192 / 2\<close>.
\<close>

definition slashedEntry :: RegistryValidator where
  "slashedEntry = \<lparr>
     EffectiveBalance = 32000000000,
     Slashed = True,
     ActivationEpoch = 0,
     ExitEpoch = 2,
     WithdrawableEpoch = 4097 \<rparr>"

text \<open>A state at epoch 1 with one validator and every list of length one.\<close>

definition exampleState :: BeaconState where
  "exampleState = \<lparr>
     currentEpoch = 1,
     validators = [activeEntry],
     balances = [32000000000],
     inactivityScores = [0],
     currentEpochParticipation = [7],
     previousEpochParticipation = [7],
     slashings = [],
     finalizedCheckpointEpoch = 0,
     currentSyncCommittee = [0],
     nextSyncCommittee = [0] \<rparr>"

text \<open>An external committee selection and cache update that always succeed.\<close>

definition exampleSelection :: "BeaconState \<Rightarrow> SyncCommittee option" where
  "exampleSelection st = Some [0 ..< length (validators st)]"

definition exampleCacheUpdate :: "BeaconState \<Rightarrow> bool" where
  "exampleCacheUpdate st = True"

text \<open>
  The state and the accumulator of the specification's slashing example: one slashed
  validator of 32 increments that is due at epoch 1, total slashings of 3 increments, and
  an active balance of 100 increments.
\<close>

definition slashedState :: BeaconState where
  "slashedState = exampleState\<lparr>validators := [slashedEntry], slashings := [3000000000]\<rparr>"

definition slashingBalance :: Balance where
  "slashingBalance = exampleBalance\<lparr>ActiveCurrentEpoch := 100000000000\<rparr>"

section \<open>Properties\<close>

subsection \<open>The attestation delta\<close>

lemmas delta_defs = attestationDelta_def bind_err_def add_penalty_def add_reward_def

lemmas example_defs = exampleConfig_def exampleBalance_def idleValidator_def

lemma idle_delta:
  "attestationDelta exampleConfig exampleBalance idleValidator 252982 201326592 False
     = Inr (0, 5059640)"
  by (simp add: delta_defs example_defs)

lemma idle_head_delta:
  "attestationDelta exampleConfig exampleBalance
     (idleValidator\<lparr>IsPrevEpochHeadAttester := True\<rparr>) 252982 201326592 False
     = Inr (885437, 5059640)"
  by (simp add: delta_defs example_defs)

lemma penalty_of_delta:
  assumes "attestationDelta cfg bal v m d leak = Inr (r, p)"
      and "IsActivePrevEpoch v \<or> (IsSlashed v \<and> \<not> IsWithdrawableCurrentEpoch v)"
      and "ActiveCurrentEpoch bal \<noteq> 0"
  shows "p = spec_penalty cfg v m d"
  using assms
  by (auto simp: delta_defs spec_penalty_def Let_def split: if_splits sum.splits)

lemma penalty_head_independent:
  assumes "attestationDelta cfg bal v m d leak = Inr (r, p)"
      and "attestationDelta cfg bal (v\<lparr>IsPrevEpochHeadAttester := h\<rparr>) m d leak = Inr (r', p')"
  shows "p' = p"
  using assms
  by (auto simp: delta_defs Let_def split: if_splits sum.splits)

text \<open>
  C1, as the code has it. The eligibility test of \<^verbatim>\<open>attestationDelta\<close> reads
  \<open>IsActivePrevEpoch\<close>, not \<open>IsPrevEpochAttester\<close>: a validator that is not active in the
  previous epoch and is not (slashed and not yet withdrawable), or any validator when the
  accumulator's \<open>ActiveCurrentEpoch\<close> is 0, gets reward 0 and penalty 0, whatever the
  configuration, the multiplier, the denominator and the leak flag are.
\<close>

theorem attestationDelta_zero_when_ineligible:
  "\<not> (IsActivePrevEpoch v \<or> (IsSlashed v \<and> \<not> IsWithdrawableCurrentEpoch v))
     \<or> ActiveCurrentEpoch bal = 0
   \<Longrightarrow> attestationDelta cfg bal v m d leak = Inr (0, 0)"
  by (auto simp: attestationDelta_def)

theorem attestationDelta_zero_when_ineligible_witness:
  "\<not> (IsActivePrevEpoch (idleValidator\<lparr>IsActivePrevEpoch := False\<rparr>)
        \<or> (IsSlashed (idleValidator\<lparr>IsActivePrevEpoch := False\<rparr>)
            \<and> \<not> IsWithdrawableCurrentEpoch (idleValidator\<lparr>IsActivePrevEpoch := False\<rparr>)))
   \<and> attestationDelta exampleConfig exampleBalance (idleValidator\<lparr>IsActivePrevEpoch := False\<rparr>)
        252982 201326592 False = Inr (0, 0)
   \<and> ActiveCurrentEpoch (exampleBalance\<lparr>ActiveCurrentEpoch := 0\<rparr>) = 0
   \<and> attestationDelta exampleConfig (exampleBalance\<lparr>ActiveCurrentEpoch := 0\<rparr>) idleValidator
        252982 201326592 False = Inr (0, 0)"
proof -
  have a: "\<not> (IsActivePrevEpoch (idleValidator\<lparr>IsActivePrevEpoch := False\<rparr>)
        \<or> (IsSlashed (idleValidator\<lparr>IsActivePrevEpoch := False\<rparr>)
            \<and> \<not> IsWithdrawableCurrentEpoch (idleValidator\<lparr>IsActivePrevEpoch := False\<rparr>)))"
    by (simp add: idleValidator_def)
  have b: "ActiveCurrentEpoch (exampleBalance\<lparr>ActiveCurrentEpoch := 0\<rparr>) = 0"
    by simp
  from a have "attestationDelta exampleConfig exampleBalance
        (idleValidator\<lparr>IsActivePrevEpoch := False\<rparr>) 252982 201326592 False = Inr (0, 0)"
    by (intro attestationDelta_zero_when_ineligible disjI1)
  moreover from b have "attestationDelta exampleConfig
        (exampleBalance\<lparr>ActiveCurrentEpoch := 0\<rparr>) idleValidator 252982 201326592 False = Inr (0, 0)"
    by (intro attestationDelta_zero_when_ineligible disjI2)
  ultimately show ?thesis using a b by blast
qed

text \<open>
  C1 as the specification words it fails: a validator that was active in the previous
  epoch but did not attest is not eligible in the specification's sense
  (\<open>IsPrevEpochAttester\<close> is false and it is not slashed), the accumulator's
  \<open>ActiveCurrentEpoch\<close> is not 0, and yet its penalty is 5059640.
\<close>

theorem idle_validator_is_penalized:
  "\<not> (IsPrevEpochAttester idleValidator
        \<or> (IsSlashed idleValidator \<and> \<not> IsWithdrawableCurrentEpoch idleValidator))
   \<and> ActiveCurrentEpoch exampleBalance \<noteq> 0
   \<and> attestationDelta exampleConfig exampleBalance idleValidator 252982 201326592 False
        = Inr (0, 5059640)"
  by (simp add: delta_defs example_defs)

text \<open>
  C6. Whenever \<^verbatim>\<open>attestationDelta\<close> returns for a validator record and for the same
  record with any other value of \<open>IsPrevEpochHeadAttester\<close>, the two penalties are equal;
  and for an eligible validator (with a non-zero \<open>ActiveCurrentEpoch\<close>) the penalty is
  the sum of the source term, the target term and the inactivity term of the
  specification, in which the head vote does not occur.
\<close>

theorem missed_head_vote_is_never_penalized:
  assumes "attestationDelta cfg bal v m d leak = Inr (r, p)"
      and "attestationDelta cfg bal (v\<lparr>IsPrevEpochHeadAttester := h\<rparr>) m d leak = Inr (r', p')"
  shows "p' = p \<and>
         ((IsActivePrevEpoch v \<or> (IsSlashed v \<and> \<not> IsWithdrawableCurrentEpoch v))
            \<and> ActiveCurrentEpoch bal \<noteq> 0 \<longrightarrow> p = spec_penalty cfg v m d)"
  using assms penalty_head_independent penalty_of_delta by blast

theorem missed_head_vote_is_never_penalized_witness:
  "attestationDelta exampleConfig exampleBalance idleValidator 252982 201326592 False
     = Inr (0, 5059640)
   \<and> attestationDelta exampleConfig exampleBalance
       (idleValidator\<lparr>IsPrevEpochHeadAttester := True\<rparr>) 252982 201326592 False
     = Inr (885437, 5059640)
   \<and> (IsActivePrevEpoch idleValidator
        \<or> (IsSlashed idleValidator \<and> \<not> IsWithdrawableCurrentEpoch idleValidator))
   \<and> ActiveCurrentEpoch exampleBalance \<noteq> 0
   \<and> spec_penalty exampleConfig idleValidator 252982 201326592 = 5059640"
proof -
  have e: "IsActivePrevEpoch idleValidator
        \<or> (IsSlashed idleValidator \<and> \<not> IsWithdrawableCurrentEpoch idleValidator)"
    by (simp add: idleValidator_def)
  have n: "ActiveCurrentEpoch exampleBalance \<noteq> 0"
    by (simp add: exampleBalance_def)
  from missed_head_vote_is_never_penalized [OF idle_delta idle_head_delta] e n
  have "(5059640 :: u64) = spec_penalty exampleConfig idleValidator 252982 201326592"
    by blast
  with idle_delta idle_head_delta e n show ?thesis by simp
qed

text \<open>
  C9. A slashed validator never gets an attestation reward: whatever the attester flags,
  the activity flags and the leak flag are, every result of \<^verbatim>\<open>attestationDelta\<close> for
  it has reward 0; and the function does return (with reward 0) whenever the three
  divisors it can reach for such a validator are not zero.
\<close>

theorem slashed_validator_earns_no_reward:
  assumes "IsSlashed v"
  shows "(\<forall>r p. attestationDelta cfg bal v m d leak = Inr (r, p) \<longrightarrow> r = 0) \<and>
         (EffectiveBalanceIncrement cfg \<noteq> 0 \<and> WeightDenominator cfg \<noteq> 0 \<and> d \<noteq> 0 \<longrightarrow>
            (\<exists>p. attestationDelta cfg bal v m d leak = Inr (0, p)))"
  using assms
  by (auto simp: delta_defs Let_def split: if_splits sum.splits)

theorem slashed_validator_earns_no_reward_witness:
  "IsSlashed (idleValidator\<lparr>IsSlashed := True, IsPrevEpochAttester := True,
                IsPrevEpochTargetAttester := True, IsPrevEpochHeadAttester := True\<rparr>)
   \<and> EffectiveBalanceIncrement exampleConfig \<noteq> 0
   \<and> WeightDenominator exampleConfig \<noteq> 0
   \<and> (201326592 :: u64) \<noteq> 0
   \<and> (\<exists>p. attestationDelta exampleConfig exampleBalance
          (idleValidator\<lparr>IsSlashed := True, IsPrevEpochAttester := True,
             IsPrevEpochTargetAttester := True, IsPrevEpochHeadAttester := True\<rparr>)
          252982 201326592 False = Inr (0, p))"
proof -
  have s: "IsSlashed (idleValidator\<lparr>IsSlashed := True, IsPrevEpochAttester := True,
                IsPrevEpochTargetAttester := True, IsPrevEpochHeadAttester := True\<rparr>)"
    by simp
  have c: "EffectiveBalanceIncrement exampleConfig \<noteq> 0 \<and> WeightDenominator exampleConfig \<noteq> 0
            \<and> (201326592 :: u64) \<noteq> 0"
    by (simp add: exampleConfig_def)
  from slashed_validator_earns_no_reward [OF s, of exampleConfig exampleBalance 252982 201326592 False] c
  have "\<exists>p. attestationDelta exampleConfig exampleBalance
          (idleValidator\<lparr>IsSlashed := True, IsPrevEpochAttester := True,
             IsPrevEpochTargetAttester := True, IsPrevEpochHeadAttester := True\<rparr>)
          252982 201326592 False = Inr (0, p)"
    by blast
  with s c show ?thesis by blast
qed

subsection \<open>Slashing penalties\<close>

lemma no_due_noop:
  assumes "\<forall>val \<in> set (validators s). \<not> slashing_due cfg s val"
  shows "ProcessSlashingsPrecompute cfg s pBal = (s, None)"
proof -
  have "\<not> list_ex (\<lambda>val. Slashed val \<and>
            CurrentEpoch s + EpochsPerSlashingsVector cfg div 2 = WithdrawableEpoch val) (validators s)"
    using assms by (auto simp: list_ex_iff slashing_due_def)
  then show ?thesis by (simp add: ProcessSlashingsPrecompute_def Let_def)
qed

lemma fold_add_sum_list: "fold (\<lambda>x (t::u64). t + x) xs a = a + sum_list xs"
  by (induction xs arbitrary: a) (simp_all add: add.assoc)

lemma loop_result:
  assumes "inc \<noteq> 0" "ActiveCurrentEpoch pBal \<noteq> 0"
  shows "idx + length vs \<le> length (balances s) \<Longrightarrow>
    \<exists>bs. ApplyToEveryValidator_loop (validatorFunc inc etw ms pBal) idx vs s = (s\<lparr>balances := bs\<rparr>, None)
       \<and> length bs = length (balances s)
       \<and> (\<forall>j < length bs. bs ! j =
          (if idx \<le> j \<and> j < idx + length vs \<and> Slashed (vs ! (j - idx)) \<and> etw = WithdrawableEpoch (vs ! (j - idx))
           then DecreaseBalanceWithVal (balances s ! j) (EffectiveBalance (vs ! (j - idx)) div inc * ms div ActiveCurrentEpoch pBal * inc)
           else balances s ! j))"
proof (induction vs arbitrary: idx s)
  case Nil
  have "s = s\<lparr>balances := balances s\<rparr>" by simp
  then show ?case by (metis ApplyToEveryValidator_loop.simps(1) list.size(3) add_0_right not_less)
next
  case (Cons val vs)
  show ?case
  proof (cases "Slashed val \<and> etw = WithdrawableEpoch val")
    case False
    then have f: "validatorFunc inc etw ms pBal idx val s = Inr s"
      by (auto simp: validatorFunc_def)
    from Cons.prems have "Suc idx + length vs \<le> length (balances s)" by simp
    from Cons.IH [OF this] obtain bs where
      bs: "ApplyToEveryValidator_loop (validatorFunc inc etw ms pBal) (Suc idx) vs s = (s\<lparr>balances := bs\<rparr>, None)"
        "length bs = length (balances s)"
        "\<forall>j < length bs. bs ! j =
          (if Suc idx \<le> j \<and> j < Suc idx + length vs \<and> Slashed (vs ! (j - Suc idx)) \<and> etw = WithdrawableEpoch (vs ! (j - Suc idx))
           then DecreaseBalanceWithVal (balances s ! j) (EffectiveBalance (vs ! (j - Suc idx)) div inc * ms div ActiveCurrentEpoch pBal * inc)
           else balances s ! j)"
      by blast
    have "\<forall>j < length bs. bs ! j =
          (if idx \<le> j \<and> j < idx + length (val # vs) \<and> Slashed ((val # vs) ! (j - idx)) \<and> etw = WithdrawableEpoch ((val # vs) ! (j - idx))
           then DecreaseBalanceWithVal (balances s ! j) (EffectiveBalance ((val # vs) ! (j - idx)) div inc * ms div ActiveCurrentEpoch pBal * inc)
           else balances s ! j)"
    proof (intro allI impI)
      fix j assume "j < length bs"
      with bs(3) have e: "bs ! j =
          (if Suc idx \<le> j \<and> j < Suc idx + length vs \<and> Slashed (vs ! (j - Suc idx)) \<and> etw = WithdrawableEpoch (vs ! (j - Suc idx))
           then DecreaseBalanceWithVal (balances s ! j) (EffectiveBalance (vs ! (j - Suc idx)) div inc * ms div ActiveCurrentEpoch pBal * inc)
           else balances s ! j)" by blast
      show "bs ! j =
          (if idx \<le> j \<and> j < idx + length (val # vs) \<and> Slashed ((val # vs) ! (j - idx)) \<and> etw = WithdrawableEpoch ((val # vs) ! (j - idx))
           then DecreaseBalanceWithVal (balances s ! j) (EffectiveBalance ((val # vs) ! (j - idx)) div inc * ms div ActiveCurrentEpoch pBal * inc)
           else balances s ! j)"
      proof (cases "j = idx")
        case True
        with e False show ?thesis by auto
      next
        case ne: False
        show ?thesis
        proof (cases "idx < j")
          case True
          then have "(val # vs) ! (j - idx) = vs ! (j - Suc idx)"
            by (simp add: nth_Cons')
          with e True show ?thesis by (simp add: Suc_le_eq)
        next
          case False
          with ne e show ?thesis by simp
        qed
      qed
    qed
    with bs(1,2) f show ?thesis by auto
  next
    case True
    let ?pen = "EffectiveBalance val div inc * ms div ActiveCurrentEpoch pBal * inc"
    let ?s1 = "s\<lparr>balances := (balances s)[idx := DecreaseBalanceWithVal (balances s ! idx) ?pen]\<rparr>"
    from Cons.prems have lt: "idx < length (balances s)" by simp
    with True assms have f: "validatorFunc inc etw ms pBal idx val s = Inr ?s1"
      by (simp add: validatorFunc_def DecreaseBalance_def Let_def)
    from Cons.prems have "Suc idx + length vs \<le> length (balances ?s1)" by simp
    from Cons.IH [OF this] obtain bs where
      bs: "ApplyToEveryValidator_loop (validatorFunc inc etw ms pBal) (Suc idx) vs ?s1 = (?s1\<lparr>balances := bs\<rparr>, None)"
        "length bs = length (balances ?s1)"
        "\<forall>j < length bs. bs ! j =
          (if Suc idx \<le> j \<and> j < Suc idx + length vs \<and> Slashed (vs ! (j - Suc idx)) \<and> etw = WithdrawableEpoch (vs ! (j - Suc idx))
           then DecreaseBalanceWithVal (balances ?s1 ! j) (EffectiveBalance (vs ! (j - Suc idx)) div inc * ms div ActiveCurrentEpoch pBal * inc)
           else balances ?s1 ! j)"
      by blast
    have "\<forall>j < length bs. bs ! j =
          (if idx \<le> j \<and> j < idx + length (val # vs) \<and> Slashed ((val # vs) ! (j - idx)) \<and> etw = WithdrawableEpoch ((val # vs) ! (j - idx))
           then DecreaseBalanceWithVal (balances s ! j) (EffectiveBalance ((val # vs) ! (j - idx)) div inc * ms div ActiveCurrentEpoch pBal * inc)
           else balances s ! j)"
    proof (intro allI impI)
      fix j assume jl: "j < length bs"
      with bs(3) have e: "bs ! j =
          (if Suc idx \<le> j \<and> j < Suc idx + length vs \<and> Slashed (vs ! (j - Suc idx)) \<and> etw = WithdrawableEpoch (vs ! (j - Suc idx))
           then DecreaseBalanceWithVal (balances ?s1 ! j) (EffectiveBalance (vs ! (j - Suc idx)) div inc * ms div ActiveCurrentEpoch pBal * inc)
           else balances ?s1 ! j)" by blast
      show "bs ! j =
          (if idx \<le> j \<and> j < idx + length (val # vs) \<and> Slashed ((val # vs) ! (j - idx)) \<and> etw = WithdrawableEpoch ((val # vs) ! (j - idx))
           then DecreaseBalanceWithVal (balances s ! j) (EffectiveBalance ((val # vs) ! (j - idx)) div inc * ms div ActiveCurrentEpoch pBal * inc)
           else balances s ! j)"
      proof (cases "j = idx")
        case True
        with e \<open>Slashed val \<and> etw = WithdrawableEpoch val\<close> lt show ?thesis by auto
      next
        case ne: False
        show ?thesis
        proof (cases "idx < j")
          case True
          then have "(val # vs) ! (j - idx) = vs ! (j - Suc idx)"
            by (simp add: nth_Cons')
          with e True ne show ?thesis by (simp add: Suc_le_eq)
        next
          case False
          with ne e show ?thesis by simp
        qed
      qed
    qed
    with bs(1,2) f show ?thesis by auto
  qed
qed


lemma loop_panics_without_active_balance:
  assumes "inc \<noteq> 0" "ActiveCurrentEpoch pBal = 0"
  shows "\<exists>val \<in> set vs. Slashed val \<and> etw = WithdrawableEpoch val \<Longrightarrow>
    ApplyToEveryValidator_loop (validatorFunc inc etw ms pBal) idx vs s = (s, Some PanicDivideByZero)"
proof (induction vs arbitrary: idx)
  case Nil
  then show ?case by simp
next
  case (Cons val vs)
  show ?case
  proof (cases "Slashed val \<and> etw = WithdrawableEpoch val")
    case True
    with assms have "validatorFunc inc etw ms pBal idx val s = Inl PanicDivideByZero"
      by (simp add: validatorFunc_def Let_def)
    then show ?thesis by simp
  next
    case False
    then have f: "validatorFunc inc etw ms pBal idx val s = Inr s"
      by (auto simp: validatorFunc_def)
    from False Cons.prems have "\<exists>val \<in> set vs. Slashed val \<and> etw = WithdrawableEpoch val"
      by auto
    from Cons.IH [OF this] f show ?thesis by simp
  qed
qed

lemma validatorFunc_cases:
  assumes "inc \<noteq> 0" "ActiveCurrentEpoch pBal \<noteq> 0"
  shows "(\<exists>s1. validatorFunc inc etw ms pBal idx val s = Inr s1)
       \<or> validatorFunc inc etw ms pBal idx val s = Inl ErrContainer"
  using assms by (simp add: validatorFunc_def DecreaseBalance_def Let_def)

lemma loop_never_panics:
  assumes "inc \<noteq> 0" "ActiveCurrentEpoch pBal \<noteq> 0"
  shows "snd (ApplyToEveryValidator_loop (validatorFunc inc etw ms pBal) idx vs s) = None
       \<or> snd (ApplyToEveryValidator_loop (validatorFunc inc etw ms pBal) idx vs s) = Some ErrContainer"
proof (induction vs arbitrary: idx s)
  case Nil
  then show ?case by simp
next
  case (Cons val vs)
  from validatorFunc_cases [OF assms, of etw ms idx val s]
  show ?case
  proof
    assume "\<exists>s1. validatorFunc inc etw ms pBal idx val s = Inr s1"
    then obtain s1 where "validatorFunc inc etw ms pBal idx val s = Inr s1" ..
    with Cons.IH [of "Suc idx" s1] show ?thesis by simp
  next
    assume "validatorFunc inc etw ms pBal idx val s = Inl ErrContainer"
    then show ?thesis by simp
  qed
qed

lemma due_iff:
  "(Slashed val \<and> CurrentEpoch s + EpochsPerSlashingsVector cfg div 2 = WithdrawableEpoch val)
     \<longleftrightarrow> slashing_due cfg s val"
  by (auto simp: slashing_due_def)

lemma Min_u64_min: "Min_u64 a b = min a b"
  by (auto simp: Min_u64_def min_def)

lemma slashing_example:
  assumes "0 < unat inc" "288 * unat inc < 2 ^ 64"
  shows "spec_slashing_penalty inc 3 (3 * inc) (100 * inc) (32 * inc) = 2 * inc"
proof -
  let ?n = "unat inc"
  have u32: "unat (32 * inc) = 32 * ?n"
    using assms by (simp add: unat_word_ariths)
  have u9: "unat (3 * inc * 3) = 9 * ?n"
    using assms by (simp add: unat_word_ariths)
  have u100: "unat (100 * inc) = 100 * ?n"
    using assms by (simp add: unat_word_ariths)
  have m: "min (3 * inc * 3) (100 * inc) = 3 * inc * 3"
    using u9 u100 by (simp add: min_def word_le_nat_alt)
  have d1: "32 * inc div inc = 32"
    using u32 assms by (simp add: word_unat_eq_iff unat_div)
  have u288: "unat (32 * (3 * inc * 3)) = 288 * ?n"
    using assms by (simp add: unat_word_ariths)
  have d2: "32 * (3 * inc * 3) div (100 * inc) = 2"
  proof -
    have "288 * ?n div (100 * ?n) = 2"
      using assms(1) by (simp add: div_nat_eqI)
    then show ?thesis
      using u288 u100 by (simp add: word_unat_eq_iff unat_div)
  qed
  have "spec_slashing_penalty inc 3 (3 * inc) (100 * inc) (32 * inc)
          = (32 * inc div inc * min (3 * inc * 3) (100 * inc)) div (100 * inc) * inc"
    by (simp only: spec_slashing_penalty_def)
  also have "\<dots> = 32 * (3 * inc * 3) div (100 * inc) * inc"
    by (simp only: m d1)
  also have "\<dots> = 2 * inc"
    by (simp only: d2)
  finally show ?thesis .
qed

lemma slashing_balances:
  assumes "EffectiveBalanceIncrement cfg \<noteq> 0" "ActiveCurrentEpoch pBal \<noteq> 0"
      and "length (validators s) \<le> length (balances s)"
  shows "\<exists>bs. ProcessSlashingsPrecompute cfg s pBal = (s\<lparr>balances := bs\<rparr>, None)
           \<and> length bs = length (balances s)
           \<and> (\<forall>i < length bs. bs ! i =
                (if i < length (validators s) \<and> slashing_due cfg s (validators s ! i)
                 then DecreaseBalanceWithVal (balances s ! i)
                        (spec_slashing_penalty (EffectiveBalanceIncrement cfg)
                           (ProportionalSlashingMultiplier cfg) (sum_list (slashings s))
                           (ActiveCurrentEpoch pBal) (EffectiveBalance (validators s ! i)))
                 else balances s ! i))"
proof (cases "\<forall>val \<in> set (validators s). \<not> slashing_due cfg s val")
  case True
  then have "ProcessSlashingsPrecompute cfg s pBal = (s, None)" by (rule no_due_noop)
  moreover have "s = s\<lparr>balances := balances s\<rparr>" by simp
  moreover have "\<forall>i < length (balances s). \<not> (i < length (validators s) \<and> slashing_due cfg s (validators s ! i))"
    using True by auto
  ultimately show ?thesis by (intro exI [where x = "balances s"]) auto
next
  case False
  let ?etw = "CurrentEpoch s + EpochsPerSlashingsVector cfg div 2"
  let ?ms = "min (sum_list (slashings s) * ProportionalSlashingMultiplier cfg) (ActiveCurrentEpoch pBal)"
  from False have ex: "list_ex (\<lambda>val. Slashed val \<and> ?etw = WithdrawableEpoch val) (validators s)"
    by (auto simp: list_ex_iff slashing_due_def)
  then have run: "ProcessSlashingsPrecompute cfg s pBal =
      ApplyToEveryValidator_loop (validatorFunc (EffectiveBalanceIncrement cfg) ?etw ?ms pBal) 0 (validators s) s"
    by (simp add: ProcessSlashingsPrecompute_def Let_def ApplyToEveryValidator_def
          fold_add_sum_list Min_u64_min)
  from assms(3) have "0 + length (validators s) \<le> length (balances s)" by simp
  from loop_result [OF assms(1,2) this, of ?etw ?ms]
  obtain bs where bs:
    "ApplyToEveryValidator_loop (validatorFunc (EffectiveBalanceIncrement cfg) ?etw ?ms pBal) 0
       (validators s) s = (s\<lparr>balances := bs\<rparr>, None)"
    "length bs = length (balances s)"
    "\<forall>j < length bs. bs ! j =
       (if 0 \<le> j \<and> j < 0 + length (validators s) \<and> Slashed (validators s ! (j - 0))
             \<and> ?etw = WithdrawableEpoch (validators s ! (j - 0))
        then DecreaseBalanceWithVal (balances s ! j)
               (EffectiveBalance (validators s ! (j - 0)) div EffectiveBalanceIncrement cfg * ?ms
                  div ActiveCurrentEpoch pBal * EffectiveBalanceIncrement cfg)
        else balances s ! j)"
    by blast
  have "\<forall>i < length bs. bs ! i =
          (if i < length (validators s) \<and> slashing_due cfg s (validators s ! i)
           then DecreaseBalanceWithVal (balances s ! i)
                  (spec_slashing_penalty (EffectiveBalanceIncrement cfg)
                     (ProportionalSlashingMultiplier cfg) (sum_list (slashings s))
                     (ActiveCurrentEpoch pBal) (EffectiveBalance (validators s ! i)))
           else balances s ! i)"
  proof (intro allI impI)
    fix i assume "i < length bs"
    with bs(3) show "bs ! i =
          (if i < length (validators s) \<and> slashing_due cfg s (validators s ! i)
           then DecreaseBalanceWithVal (balances s ! i)
                  (spec_slashing_penalty (EffectiveBalanceIncrement cfg)
                     (ProportionalSlashingMultiplier cfg) (sum_list (slashings s))
                     (ActiveCurrentEpoch pBal) (EffectiveBalance (validators s ! i)))
           else balances s ! i)"
      by (auto simp: slashing_due_def spec_slashing_penalty_def)
  qed
  with bs(1,2) run show ?thesis by auto
qed

lemmas slashing_example_defs =
  slashedState_def exampleState_def slashedEntry_def slashingBalance_def exampleBalance_def
  exampleConfig_def activeEntry_def

text \<open>
  C5. With a non-zero increment and a non-zero \<open>ActiveCurrentEpoch\<close>, and a balance list
  that covers the registry, \<^verbatim>\<open>ProcessSlashingsPrecompute\<close> returns without error and
  changes nothing but the balance list: the balance of every validator that is slashed
  with \<open>WithdrawableEpoch = currentEpoch + EpochsPerSlashingsVector / 2\<close> is decreased
  (saturating at 0) by
  \<open>(effectiveBalance / increment * min(totalSlashings * multiplier, activeCurrentEpoch))
     / activeCurrentEpoch * increment\<close>, and every other balance is kept. For
  \<open>totalSlashings = 3 * increment\<close>, multiplier 3, \<open>activeCurrentEpoch = 100 * increment\<close>
  and \<open>effectiveBalance = 32 * increment\<close> that penalty is \<open>2 * increment\<close> (for every
  increment for which \<open>288 * increment\<close> fits into 64 bits).
\<close>

theorem slashing_penalty_formula:
  assumes "EffectiveBalanceIncrement cfg \<noteq> 0" "ActiveCurrentEpoch pBal \<noteq> 0"
      and "length (validators s) \<le> length (balances s)"
  shows "(\<exists>bs. ProcessSlashingsPrecompute cfg s pBal = (s\<lparr>balances := bs\<rparr>, None)
           \<and> length bs = length (balances s)
           \<and> (\<forall>i < length bs. bs ! i =
                (if i < length (validators s) \<and> slashing_due cfg s (validators s ! i)
                 then DecreaseBalanceWithVal (balances s ! i)
                        (spec_slashing_penalty (EffectiveBalanceIncrement cfg)
                           (ProportionalSlashingMultiplier cfg) (sum_list (slashings s))
                           (ActiveCurrentEpoch pBal) (EffectiveBalance (validators s ! i)))
                 else balances s ! i)))
       \<and> (\<forall>inc. 0 < unat inc \<and> 288 * unat inc < 2 ^ 64 \<longrightarrow>
             spec_slashing_penalty inc 3 (3 * inc) (100 * inc) (32 * inc) = 2 * inc)"
  using slashing_balances [OF assms] slashing_example by blast

theorem slashing_penalty_formula_witness:
  "EffectiveBalanceIncrement exampleConfig \<noteq> 0
   \<and> ActiveCurrentEpoch slashingBalance \<noteq> 0
   \<and> length (validators slashedState) \<le> length (balances slashedState)
   \<and> slashing_due exampleConfig slashedState (validators slashedState ! 0)
   \<and> (\<exists>bs. ProcessSlashingsPrecompute exampleConfig slashedState slashingBalance
               = (slashedState\<lparr>balances := bs\<rparr>, None)
           \<and> length bs = 1 \<and> bs ! 0 = 30000000000)
   \<and> spec_slashing_penalty 1000000000 3 (3 * 1000000000) (100 * 1000000000) (32 * 1000000000)
       = 2 * 1000000000"
proof -
  have a: "EffectiveBalanceIncrement exampleConfig \<noteq> 0"
    by (simp add: exampleConfig_def)
  have b: "ActiveCurrentEpoch slashingBalance \<noteq> 0"
    by (simp add: slashingBalance_def)
  have c: "length (validators slashedState) \<le> length (balances slashedState)"
    by (simp add: slashedState_def exampleState_def)
  have d: "slashing_due exampleConfig slashedState (validators slashedState ! 0)"
    by (simp add: slashing_due_def CurrentEpoch_def slashing_example_defs)
  have p: "DecreaseBalanceWithVal (balances slashedState ! 0)
             (spec_slashing_penalty (EffectiveBalanceIncrement exampleConfig)
                (ProportionalSlashingMultiplier exampleConfig) (sum_list (slashings slashedState))
                (ActiveCurrentEpoch slashingBalance)
                (EffectiveBalance (validators slashedState ! 0))) = 30000000000"
    by (simp add: DecreaseBalanceWithVal_def spec_slashing_penalty_def slashing_example_defs)
  have l: "length (balances slashedState) = 1"
    by (simp add: slashedState_def exampleState_def)
  have u: "0 < unat (1000000000 :: u64) \<and> 288 * unat (1000000000 :: u64) < 2 ^ 64"
    by simp
  note t = slashing_penalty_formula [OF a b c]
  from t obtain bs where bs:
    "ProcessSlashingsPrecompute exampleConfig slashedState slashingBalance
       = (slashedState\<lparr>balances := bs\<rparr>, None)"
    "length bs = length (balances slashedState)"
    "\<forall>i < length bs. bs ! i =
       (if i < length (validators slashedState)
             \<and> slashing_due exampleConfig slashedState (validators slashedState ! i)
        then DecreaseBalanceWithVal (balances slashedState ! i)
               (spec_slashing_penalty (EffectiveBalanceIncrement exampleConfig)
                  (ProportionalSlashingMultiplier exampleConfig)
                  (sum_list (slashings slashedState)) (ActiveCurrentEpoch slashingBalance)
                  (EffectiveBalance (validators slashedState ! i)))
        else balances slashedState ! i)"
    by blast
  from bs(2) l have l1: "length bs = 1" by simp
  with bs(3) have "bs ! 0 =
       (if 0 < length (validators slashedState)
             \<and> slashing_due exampleConfig slashedState (validators slashedState ! 0)
        then DecreaseBalanceWithVal (balances slashedState ! 0)
               (spec_slashing_penalty (EffectiveBalanceIncrement exampleConfig)
                  (ProportionalSlashingMultiplier exampleConfig)
                  (sum_list (slashings slashedState)) (ActiveCurrentEpoch slashingBalance)
                  (EffectiveBalance (validators slashedState ! 0)))
        else balances slashedState ! 0)"
    by simp
  moreover have "validators slashedState \<noteq> []"
    by (simp add: slashedState_def)
  ultimately have e: "bs ! 0 = 30000000000"
    using d p by simp
  from t u have f: "spec_slashing_penalty 1000000000 3 (3 * 1000000000) (100 * 1000000000)
        (32 * 1000000000) = 2 * 1000000000"
    by blast
  from a b c d bs(1) l1 e f show ?thesis by blast
qed

text \<open>
  C7. When no validator of the registry is slashed with
  \<open>WithdrawableEpoch = currentEpoch + EpochsPerSlashingsVector / 2\<close>,
  \<^verbatim>\<open>ProcessSlashingsPrecompute\<close> returns without error and leaves the whole state, the
  balance list included, as it was.
\<close>

theorem slashing_is_noop_without_due_validator:
  assumes "\<forall>val \<in> set (validators s). \<not> slashing_due cfg s val"
  shows "ProcessSlashingsPrecompute cfg s pBal = (s, None)"
  using assms by (rule no_due_noop)

theorem slashing_is_noop_without_due_validator_witness:
  "\<not> (\<exists>val \<in> set (validators exampleState). slashing_due exampleConfig exampleState val)
   \<and> ProcessSlashingsPrecompute exampleConfig exampleState exampleBalance = (exampleState, None)"
proof -
  have a: "\<forall>val \<in> set (validators exampleState). \<not> slashing_due exampleConfig exampleState val"
    by (simp add: slashing_due_def exampleState_def activeEntry_def)
  from slashing_is_noop_without_due_validator [OF a] a show ?thesis by blast
qed

text \<open>
  C10. The division by \<open>ActiveCurrentEpoch\<close> is reached exactly when some validator is
  slashed with the matching withdrawable epoch, and nothing guards its divisor: without
  such a validator the function returns with the state untouched, whatever
  \<open>ActiveCurrentEpoch\<close> is; with such a validator and \<open>ActiveCurrentEpoch = 0\<close> it panics
  with a division by zero; and when \<open>ActiveCurrentEpoch\<close> is not 0 whenever such a
  validator exists, it never panics: it returns without error, or with the container's
  error for a balance list shorter than the registry. (The increment, a protocol constant
  that is also a divisor, is taken to be non-zero.)
\<close>

theorem slashing_division_by_active_balance:
  "(\<not> (\<exists>val \<in> set (validators s). slashing_due cfg s val) \<longrightarrow>
      ProcessSlashingsPrecompute cfg s pBal = (s, None))
   \<and> ((\<exists>val \<in> set (validators s). slashing_due cfg s val)
        \<and> EffectiveBalanceIncrement cfg \<noteq> 0 \<and> ActiveCurrentEpoch pBal = 0 \<longrightarrow>
      ProcessSlashingsPrecompute cfg s pBal = (s, Some PanicDivideByZero))
   \<and> (EffectiveBalanceIncrement cfg \<noteq> 0
        \<and> ((\<exists>val \<in> set (validators s). slashing_due cfg s val) \<longrightarrow> ActiveCurrentEpoch pBal \<noteq> 0) \<longrightarrow>
      (snd (ProcessSlashingsPrecompute cfg s pBal) = None
         \<or> snd (ProcessSlashingsPrecompute cfg s pBal) = Some ErrContainer)
      \<and> (length (validators s) \<le> length (balances s) \<longrightarrow>
           snd (ProcessSlashingsPrecompute cfg s pBal) = None))"
proof (intro conjI impI)
  assume "\<not> (\<exists>val \<in> set (validators s). slashing_due cfg s val)"
  then show "ProcessSlashingsPrecompute cfg s pBal = (s, None)"
    by (intro no_due_noop) blast
next
  let ?etw = "CurrentEpoch s + EpochsPerSlashingsVector cfg div 2"
  assume h: "(\<exists>val \<in> set (validators s). slashing_due cfg s val)
        \<and> EffectiveBalanceIncrement cfg \<noteq> 0 \<and> ActiveCurrentEpoch pBal = 0"
  then have ex: "\<exists>val \<in> set (validators s). Slashed val \<and> ?etw = WithdrawableEpoch val"
    by (auto simp: slashing_due_def)
  then have "list_ex (\<lambda>val. Slashed val \<and> ?etw = WithdrawableEpoch val) (validators s)"
    by (simp add: list_ex_iff)
  then have "ProcessSlashingsPrecompute cfg s pBal =
      ApplyToEveryValidator_loop (validatorFunc (EffectiveBalanceIncrement cfg) ?etw
        (Min_u64 (fold (\<lambda>slashing total. total + slashing) (slashings s) 0
                    * ProportionalSlashingMultiplier cfg) (ActiveCurrentEpoch pBal)) pBal)
        0 (validators s) s"
    by (simp add: ProcessSlashingsPrecompute_def Let_def ApplyToEveryValidator_def)
  with loop_panics_without_active_balance [OF _ _ ex] h
  show "ProcessSlashingsPrecompute cfg s pBal = (s, Some PanicDivideByZero)"
    by simp
next
  assume h: "EffectiveBalanceIncrement cfg \<noteq> 0
        \<and> ((\<exists>val \<in> set (validators s). slashing_due cfg s val) \<longrightarrow> ActiveCurrentEpoch pBal \<noteq> 0)"
  show "snd (ProcessSlashingsPrecompute cfg s pBal) = None
         \<or> snd (ProcessSlashingsPrecompute cfg s pBal) = Some ErrContainer"
  proof (cases "\<exists>val \<in> set (validators s). slashing_due cfg s val")
    case False
    then have "ProcessSlashingsPrecompute cfg s pBal = (s, None)"
      by (intro no_due_noop) blast
    then show ?thesis by simp
  next
    case True
    with h have nz: "EffectiveBalanceIncrement cfg \<noteq> 0" "ActiveCurrentEpoch pBal \<noteq> 0" by auto
    show ?thesis
      using loop_never_panics [OF nz]
      by (simp add: ProcessSlashingsPrecompute_def Let_def ApplyToEveryValidator_def)
  qed
next
  assume h: "EffectiveBalanceIncrement cfg \<noteq> 0
        \<and> ((\<exists>val \<in> set (validators s). slashing_due cfg s val) \<longrightarrow> ActiveCurrentEpoch pBal \<noteq> 0)"
     and len: "length (validators s) \<le> length (balances s)"
  show "snd (ProcessSlashingsPrecompute cfg s pBal) = None"
  proof (cases "\<exists>val \<in> set (validators s). slashing_due cfg s val")
    case False
    then have "ProcessSlashingsPrecompute cfg s pBal = (s, None)"
      by (intro no_due_noop) blast
    then show ?thesis by simp
  next
    case True
    with h have nz: "EffectiveBalanceIncrement cfg \<noteq> 0" "ActiveCurrentEpoch pBal \<noteq> 0" by auto
    from slashing_balances [OF nz len] show ?thesis by auto
  qed
qed

theorem slashing_division_by_active_balance_witness:
  "\<not> (\<exists>val \<in> set (validators exampleState). slashing_due exampleConfig exampleState val)
   \<and> ProcessSlashingsPrecompute exampleConfig exampleState (slashingBalance\<lparr>ActiveCurrentEpoch := 0\<rparr>)
       = (exampleState, None)
   \<and> (\<exists>val \<in> set (validators slashedState). slashing_due exampleConfig slashedState val)
   \<and> EffectiveBalanceIncrement exampleConfig \<noteq> 0
   \<and> ActiveCurrentEpoch (slashingBalance\<lparr>ActiveCurrentEpoch := 0\<rparr>) = 0
   \<and> ProcessSlashingsPrecompute exampleConfig slashedState (slashingBalance\<lparr>ActiveCurrentEpoch := 0\<rparr>)
       = (slashedState, Some PanicDivideByZero)
   \<and> ActiveCurrentEpoch slashingBalance \<noteq> 0
   \<and> length (validators slashedState) \<le> length (balances slashedState)
   \<and> snd (ProcessSlashingsPrecompute exampleConfig slashedState slashingBalance) = None"
proof -
  have a: "\<not> (\<exists>val \<in> set (validators exampleState). slashing_due exampleConfig exampleState val)"
    by (simp add: slashing_due_def exampleState_def activeEntry_def)
  have b: "\<exists>val \<in> set (validators slashedState). slashing_due exampleConfig slashedState val"
    by (simp add: slashing_due_def CurrentEpoch_def slashing_example_defs)
  have c: "EffectiveBalanceIncrement exampleConfig \<noteq> 0"
    by (simp add: exampleConfig_def)
  have d: "ActiveCurrentEpoch (slashingBalance\<lparr>ActiveCurrentEpoch := 0\<rparr>) = 0"
    by simp
  have e: "ActiveCurrentEpoch slashingBalance \<noteq> 0"
    by (simp add: slashingBalance_def)
  have f: "length (validators slashedState) \<le> length (balances slashedState)"
    by (simp add: slashedState_def exampleState_def)
  from slashing_division_by_active_balance
         [of exampleState exampleConfig "slashingBalance\<lparr>ActiveCurrentEpoch := 0\<rparr>"] a
  have r1: "ProcessSlashingsPrecompute exampleConfig exampleState
              (slashingBalance\<lparr>ActiveCurrentEpoch := 0\<rparr>) = (exampleState, None)"
    by blast
  from slashing_division_by_active_balance
         [of slashedState exampleConfig "slashingBalance\<lparr>ActiveCurrentEpoch := 0\<rparr>"] b c d
  have r2: "ProcessSlashingsPrecompute exampleConfig slashedState
              (slashingBalance\<lparr>ActiveCurrentEpoch := 0\<rparr>) = (slashedState, Some PanicDivideByZero)"
    by blast
  from slashing_division_by_active_balance [of slashedState exampleConfig slashingBalance] c e f
  have r3: "snd (ProcessSlashingsPrecompute exampleConfig slashedState slashingBalance) = None"
    by blast
  from a b c d e f r1 r2 r3 show ?thesis by blast
qed

subsection \<open>Epoch boundary rotation and the genesis epoch\<close>

text \<open>
  C8. \<^verbatim>\<open>ProcessParticipationFlagUpdates\<close> always succeeds, sets the previous-epoch
  participation to the old current-epoch participation and the current-epoch participation
  to zeros, one per validator, and changes nothing else. Run twice in a row, it leaves
  the previous-epoch participation all zero, of validator-count length.
\<close>

theorem participation_rotation:
  "ProcessParticipationFlagUpdates st =
     Inr (st\<lparr>previousEpochParticipation := currentEpochParticipation st,
             currentEpochParticipation := replicate (length (validators st)) 0\<rparr>)
   \<and> (\<exists>st2. bind_err (ProcessParticipationFlagUpdates st) ProcessParticipationFlagUpdates = Inr st2
         \<and> previousEpochParticipation st2 = replicate (length (validators st)) 0
         \<and> currentEpochParticipation st2 = replicate (length (validators st)) 0
         \<and> validators st2 = validators st)"
  by (simp add: ProcessParticipationFlagUpdates_def bind_err_def Let_def)

lemma one_mod: "1 < (p::u64) \<Longrightarrow> 1 mod p = 1"
  by (simp add: word_mod_less_divisor mod_word_less)

text \<open>
  C3. In a state whose current epoch is the genesis epoch 0,
  \<^verbatim>\<open>ProcessRewardsAndPenaltiesPrecompute\<close> returns the state (and the precompute list)
  as it got them, whatever the lists' lengths are, and \<^verbatim>\<open>ProcessSyncCommitteeUpdates\<close>
  returns the state unchanged, committees included. The latter has no test of the epoch:
  the next epoch is 1, which is no multiple of a sync-committee period longer than one
  epoch.
\<close>

theorem genesis_epoch_is_noop:
  assumes "GenesisEpoch cfg = 0" "CurrentEpoch st = GenesisEpoch cfg"
      and "1 < EpochsPerSyncCommitteePeriod cfg"
  shows "ProcessRewardsAndPenaltiesPrecompute cfg st bal vals = Inr (st, vals)
       \<and> ProcessSyncCommitteeUpdates cfg NextSyncCommittee UpdateSyncCommitteeCache st = Inr st"
  using assms
  by (auto simp: ProcessRewardsAndPenaltiesPrecompute_def ProcessSyncCommitteeUpdates_def
        NextEpoch_def one_mod)

theorem genesis_epoch_is_noop_witness:
  "GenesisEpoch exampleConfig = 0
   \<and> CurrentEpoch (exampleState\<lparr>currentEpoch := 0\<rparr>) = GenesisEpoch exampleConfig
   \<and> 1 < EpochsPerSyncCommitteePeriod exampleConfig
   \<and> ProcessRewardsAndPenaltiesPrecompute exampleConfig (exampleState\<lparr>currentEpoch := 0\<rparr>)
        exampleBalance [idleValidator] = Inr (exampleState\<lparr>currentEpoch := 0\<rparr>, [idleValidator])
   \<and> ProcessSyncCommitteeUpdates exampleConfig exampleSelection exampleCacheUpdate
        (exampleState\<lparr>currentEpoch := 0\<rparr>) = Inr (exampleState\<lparr>currentEpoch := 0\<rparr>)"
proof -
  have a: "GenesisEpoch exampleConfig = 0"
    by (simp add: exampleConfig_def)
  have b: "CurrentEpoch (exampleState\<lparr>currentEpoch := 0\<rparr>) = GenesisEpoch exampleConfig"
    by (simp add: CurrentEpoch_def exampleConfig_def)
  have c: "1 < EpochsPerSyncCommitteePeriod exampleConfig"
    by (simp add: exampleConfig_def)
  from genesis_epoch_is_noop [OF a b c] a b c show ?thesis by blast
qed

subsection \<open>Inactivity scores\<close>

lemma dec_floor: "(if (s::u64) > 0 then s - 1 else s) = s - min s 1"
proof (cases "s = 0")
  case True
  then show ?thesis by simp
next
  case False
  then have "1 \<le> s" by (simp add: word_le_nat_alt unat_gt_0 Suc_leI)
  then have "min s 1 = 1" by (simp add: min_def)
  with False show ?thesis by (simp add: word_gt_0)
qed

lemma recovery_floor: "(if (r::u64) > s then s else r) = min s r"
  by (auto simp: min_def)

lemma updated_score_spec:
  "updated_inactivity_score cfg leak v =
     spec_inactivity_score (InactivityScoreBias cfg) (InactivityScoreRecoveryRate cfg) leak
       (IsPrevEpochTargetAttester v) (IsSlashed v) (InactivityScore v)"
  unfolding updated_inactivity_score_def spec_inactivity_score_def Let_def dec_floor recovery_floor
  by simp

lemma scores_loop:
  "i + length vs \<le> length scores \<Longrightarrow>
   \<exists>vs' sc'. ProcessInactivityScores_loop cfg leak i vs scores = Inr (vs', sc')
     \<and> length vs' = length vs \<and> length sc' = length scores
     \<and> (\<forall>k < length vs. vs' ! k =
           (if EligibleForRewards (vs ! k)
            then (vs ! k)\<lparr>InactivityScore := updated_inactivity_score cfg leak (vs ! k)\<rparr>
            else vs ! k))
     \<and> (\<forall>k < length vs. EligibleForRewards (vs ! k) \<longrightarrow>
           sc' ! (i + k) = updated_inactivity_score cfg leak (vs ! k))
     \<and> (\<forall>j < i. sc' ! j = scores ! j)"
proof (induction vs arbitrary: i scores)
  case Nil
  then show ?case by simp
next
  case (Cons v vs)
  let ?v1 = "v\<lparr>InactivityScore := updated_inactivity_score cfg leak v\<rparr>"
  let ?scores1 = "if EligibleForRewards v then scores[i := InactivityScore ?v1] else scores"
  from Cons.prems have il: "i < length scores" by simp
  from Cons.prems have "Suc i + length vs \<le> length ?scores1" by simp
  from Cons.IH [OF this] obtain vs' sc' where r:
    "ProcessInactivityScores_loop cfg leak (Suc i) vs ?scores1 = Inr (vs', sc')"
    "length vs' = length vs" "length sc' = length ?scores1"
    "\<forall>k < length vs. vs' ! k =
           (if EligibleForRewards (vs ! k)
            then (vs ! k)\<lparr>InactivityScore := updated_inactivity_score cfg leak (vs ! k)\<rparr>
            else vs ! k)"
    "\<forall>k < length vs. EligibleForRewards (vs ! k) \<longrightarrow>
           sc' ! (Suc i + k) = updated_inactivity_score cfg leak (vs ! k)"
    "\<forall>j < Suc i. sc' ! j = ?scores1 ! j"
    by blast
  let ?v' = "if EligibleForRewards v then ?v1 else v"
  have run: "ProcessInactivityScores_loop cfg leak i (v # vs) scores = Inr (?v' # vs', sc')"
    using r(1) il by (cases "EligibleForRewards v") (simp_all add: Let_def)
  have a: "\<forall>k < length (v # vs). (?v' # vs') ! k =
           (if EligibleForRewards ((v # vs) ! k)
            then ((v # vs) ! k)\<lparr>InactivityScore := updated_inactivity_score cfg leak ((v # vs) ! k)\<rparr>
            else (v # vs) ! k)"
  proof (intro allI impI)
    fix k assume "k < length (v # vs)"
    then show "(?v' # vs') ! k =
           (if EligibleForRewards ((v # vs) ! k)
            then ((v # vs) ! k)\<lparr>InactivityScore := updated_inactivity_score cfg leak ((v # vs) ! k)\<rparr>
            else (v # vs) ! k)"
      using r(4) by (cases k) auto
  qed
  have b: "\<forall>k < length (v # vs). EligibleForRewards ((v # vs) ! k) \<longrightarrow>
           sc' ! (i + k) = updated_inactivity_score cfg leak ((v # vs) ! k)"
  proof (intro allI impI)
    fix k assume k: "k < length (v # vs)" and e: "EligibleForRewards ((v # vs) ! k)"
    show "sc' ! (i + k) = updated_inactivity_score cfg leak ((v # vs) ! k)"
    proof (cases k)
      case 0
      with e il r(6) show ?thesis by simp
    next
      case (Suc m)
      with k e r(5) show ?thesis by simp
    qed
  qed
  have c: "\<forall>j < i. sc' ! j = scores ! j"
    using r(6) by auto
  from run r(2,3) a b c show ?case by auto
qed

text \<open>
  C4. When the current epoch is not the genesis epoch (and the score list covers the
  precompute list), \<^verbatim>\<open>ProcessInactivityScores\<close> returns, and for every eligible
  validator the new score, in the precompute record and in the persisted list alike, is
  the one of the specification: the old score minus 1 but not below 0 if the validator
  attested to the target and is not slashed, the old score plus the bias otherwise; then,
  outside a leak only, minus \<open>min(score, recoveryRate)\<close>. So an eligible validator that
  did not attest to the target during a leak gets exactly its old score plus the bias
  (in \<^verbatim>\<open>uint64\<close> arithmetic).
\<close>

theorem inactivity_score_update:
  assumes "CurrentEpoch st \<noteq> GenesisEpoch cfg"
      and "length vals \<le> length (inactivityScores st)"
      and "i < length vals"
      and "EligibleForRewards (vals ! i)"
  shows "\<exists>st' vals'. ProcessInactivityScores cfg st vals = Inr (st', vals')
     \<and> InactivityScore (vals' ! i) =
         spec_inactivity_score (InactivityScoreBias cfg) (InactivityScoreRecoveryRate cfg)
           (IsInInactivityLeak cfg (PrevEpoch st) (finalizedCheckpointEpoch st))
           (IsPrevEpochTargetAttester (vals ! i)) (IsSlashed (vals ! i)) (InactivityScore (vals ! i))
     \<and> inactivityScores st' ! i = InactivityScore (vals' ! i)
     \<and> (IsInInactivityLeak cfg (PrevEpoch st) (finalizedCheckpointEpoch st)
          \<and> \<not> IsPrevEpochTargetAttester (vals ! i) \<longrightarrow>
        InactivityScore (vals' ! i) = InactivityScore (vals ! i) + InactivityScoreBias cfg)"
proof -
  let ?leak = "IsInInactivityLeak cfg (PrevEpoch st) (finalizedCheckpointEpoch st)"
  from assms(2) have "0 + length vals \<le> length (inactivityScores st)" by simp
  from scores_loop [OF this, of cfg ?leak] obtain vs' sc' where r:
    "ProcessInactivityScores_loop cfg ?leak 0 vals (inactivityScores st) = Inr (vs', sc')"
    "\<forall>k < length vals. vs' ! k =
           (if EligibleForRewards (vals ! k)
            then (vals ! k)\<lparr>InactivityScore := updated_inactivity_score cfg ?leak (vals ! k)\<rparr>
            else vals ! k)"
    "\<forall>k < length vals. EligibleForRewards (vals ! k) \<longrightarrow>
           sc' ! (0 + k) = updated_inactivity_score cfg ?leak (vals ! k)"
    by blast
  from r(1) assms(1) have run:
    "ProcessInactivityScores cfg st vals = Inr (st\<lparr>inactivityScores := sc'\<rparr>, vs')"
    by (simp add: ProcessInactivityScores_def Let_def)
  from r(2) assms(3,4) have v: "InactivityScore (vs' ! i) = updated_inactivity_score cfg ?leak (vals ! i)"
    by simp
  from r(3) assms(3,4) have s: "sc' ! i = updated_inactivity_score cfg ?leak (vals ! i)"
    by simp
  have l: "?leak \<and> \<not> IsPrevEpochTargetAttester (vals ! i) \<longrightarrow>
        updated_inactivity_score cfg ?leak (vals ! i) = InactivityScore (vals ! i) + InactivityScoreBias cfg"
    by (simp add: updated_inactivity_score_def Let_def)
  from run v s l show ?thesis by (simp add: updated_score_spec)
qed

theorem inactivity_score_update_witness:
  "CurrentEpoch (exampleState\<lparr>currentEpoch := 10\<rparr>) \<noteq> GenesisEpoch exampleConfig
   \<and> length [idleValidator] \<le> length (inactivityScores (exampleState\<lparr>currentEpoch := 10\<rparr>))
   \<and> EligibleForRewards ([idleValidator] ! 0)
   \<and> IsInInactivityLeak exampleConfig (PrevEpoch (exampleState\<lparr>currentEpoch := 10\<rparr>))
        (finalizedCheckpointEpoch (exampleState\<lparr>currentEpoch := 10\<rparr>))
   \<and> \<not> IsPrevEpochTargetAttester ([idleValidator] ! 0)
   \<and> (\<exists>st' vals'. ProcessInactivityScores exampleConfig (exampleState\<lparr>currentEpoch := 10\<rparr>)
                       [idleValidator] = Inr (st', vals')
          \<and> InactivityScore (vals' ! 0) = 4 \<and> inactivityScores st' ! 0 = 4)"
proof -
  let ?st = "exampleState\<lparr>currentEpoch := 10\<rparr>"
  have a: "CurrentEpoch ?st \<noteq> GenesisEpoch exampleConfig"
    by (simp add: CurrentEpoch_def exampleConfig_def)
  have b: "length [idleValidator] \<le> length (inactivityScores ?st)"
    by (simp add: exampleState_def)
  have c: "(0::nat) < length [idleValidator]"
    by simp
  have d: "EligibleForRewards ([idleValidator] ! 0)"
    by (simp add: EligibleForRewards_def idleValidator_def)
  have e: "IsInInactivityLeak exampleConfig (PrevEpoch ?st) (finalizedCheckpointEpoch ?st)"
    by (simp add: IsInInactivityLeak_def PrevEpoch_def CurrentEpoch_def exampleConfig_def
          exampleState_def)
  have f: "\<not> IsPrevEpochTargetAttester ([idleValidator] ! 0)"
    by (simp add: idleValidator_def)
  have g: "InactivityScore ([idleValidator] ! 0) + InactivityScoreBias exampleConfig = 4"
    by (simp add: idleValidator_def exampleConfig_def)
  from inactivity_score_update [OF a b c d] e f g
  have "\<exists>st' vals'. ProcessInactivityScores exampleConfig ?st [idleValidator] = Inr (st', vals')
          \<and> InactivityScore (vals' ! 0) = 4 \<and> inactivityScores st' ! 0 = 4"
    by metis
  with a b d e f show ?thesis by blast
qed

subsection \<open>The integer square root\<close>

lemma sqrt_bits_numeral:
  "sqrt_bits (numeral k) n r =
     sqrt_bits (pred_numeral k) n
       (if (r + 2 ^ pred_numeral k) * (r + 2 ^ pred_numeral k) \<le> n then r + 2 ^ pred_numeral k else r)"
  by (simp add: numeral_eq_Suc)

lemma isqrt_example: "IntegerSquareRoot 32000000000 = 178885"
  by (simp add: IntegerSquareRoot_def sqrt_bits_numeral)

lemma isqrt_zero: "IntegerSquareRoot 0 = 0"
  by (simp add: IntegerSquareRoot_def sqrt_bits_numeral)

lemma sqrt_bits_sound:
  "r * r \<le> n \<Longrightarrow> n < (r + 2 ^ k) * (r + 2 ^ k) \<Longrightarrow>
   sqrt_bits k n r * sqrt_bits k n r \<le> n \<and> n < (sqrt_bits k n r + 1) * (sqrt_bits k n r + 1)"
proof (induction k arbitrary: r)
  case 0
  then show ?case by simp
next
  case (Suc k)
  show ?case
  proof (cases "(r + 2 ^ k) * (r + 2 ^ k) \<le> n")
    case True
    have e: "r + 2 ^ k + 2 ^ k = r + 2 ^ Suc k" by simp
    from Suc.prems(2) have "n < (r + 2 ^ k + 2 ^ k) * (r + 2 ^ k + 2 ^ k)"
      by (simp only: e)
    from Suc.IH [OF True this] True show ?thesis by simp
  next
    case False
    then have "n < (r + 2 ^ k) * (r + 2 ^ k)" by simp
    from Suc.IH [OF Suc.prems(1) this] False show ?thesis by simp
  qed
qed

lemma IntegerSquareRoot_floor:
  "unat (IntegerSquareRoot n) * unat (IntegerSquareRoot n) \<le> unat n
   \<and> unat n < (unat (IntegerSquareRoot n) + 1) * (unat (IntegerSquareRoot n) + 1)"
proof -
  let ?s = "sqrt_bits 32 (unat n) 0"
  have "unat n < 2 ^ 64" using unsigned_less [of n] by simp
  then have b: "unat n < (0 + 2 ^ 32) * (0 + 2 ^ 32)" by simp
  have a: "(0::nat) * 0 \<le> unat n" by simp
  from sqrt_bits_sound [OF a b] have s: "?s * ?s \<le> unat n" "unat n < (?s + 1) * (?s + 1)"
    by simp_all
  have "?s < (2::nat) ^ 32"
  proof (rule ccontr)
    assume "\<not> ?s < (2::nat) ^ 32"
    then have "(2::nat) ^ 32 \<le> ?s" by (rule leI)
    from this this have "(2::nat) ^ 32 * 2 ^ 32 \<le> ?s * ?s" by (rule mult_le_mono)
    from this s(1) have "(2::nat) ^ 32 * 2 ^ 32 \<le> unat n" by (rule le_trans)
    with \<open>unat n < 2 ^ 64\<close> show False by simp
  qed
  then have "unat (IntegerSquareRoot n) = ?s"
    by (simp add: IntegerSquareRoot_def unat_of_nat)
  with s show ?thesis by simp
qed

lemma AttestationsDelta_panics_without_active_balance:
  "ActiveCurrentEpoch bal = 0 \<Longrightarrow> AttestationsDelta cfg st bal vals = Inl PanicDivideByZero"
  by (simp add: AttestationsDelta_def isqrt_zero Let_def)

lemma rewards_step_panics_without_active_balance:
  assumes "CurrentEpoch st \<noteq> 0" "length vals = length (validators st)"
      and "length vals = length (balances st)" "ActiveCurrentEpoch bal = 0"
  shows "ProcessRewardsAndPenaltiesPrecompute cfg st bal vals = Inl PanicDivideByZero"
  using assms
  by (simp add: ProcessRewardsAndPenaltiesPrecompute_def
        AttestationsDelta_panics_without_active_balance)

subsection \<open>Lengths of the lists\<close>

lemma init_loop_ok:
  "idx + length vals \<le> length scores \<Longrightarrow>
   \<exists>ps b. InitializeEpochValidators_loop cur prev scores idx vals bal = Inr (ps, b)
      \<and> length ps = length vals"
proof (induction vals arbitrary: idx bal)
  case Nil
  then show ?case by simp
next
  case (Cons val rest)
  from Cons.prems have le: "Suc idx + length rest \<le> length scores" and il: "idx < length scores"
    by simp_all
  define bal2 where "bal2 =
    (let bal1 = (if IsActiveValidatorUsingTrie val cur
                 then bal\<lparr>ActiveCurrentEpoch := ActiveCurrentEpoch bal + EffectiveBalance val\<rparr>
                 else bal)
     in if IsActiveValidatorUsingTrie val prev
        then bal1\<lparr>ActivePrevEpoch := ActivePrevEpoch bal1 + EffectiveBalance val\<rparr>
        else bal1)"
  from Cons.IH [OF le, of bal2] obtain ps b where
    r: "InitializeEpochValidators_loop cur prev scores (Suc idx) rest bal2 = Inr (ps, b)"
       "length ps = length rest"
    by blast
  from r il show ?case
    by (simp add: Let_def bal2_def)
qed

lemma init_ok:
  assumes "length (validators st) \<le> length (inactivityScores st)"
  shows "\<exists>ps b. InitializeEpochValidators st = Inr (ps, b) \<and> length ps = length (validators st)"
  using assms init_loop_ok [of 0 "validators st" "inactivityScores st"]
  by (simp add: InitializeEpochValidators_def Let_def)

lemma mark_attester_ok:
  "i < length vals \<Longrightarrow>
   \<exists>vals1. mark_attester b flagIdx i active setFlag vals = Inr vals1 \<and> length vals1 = length vals"
  by (simp add: mark_attester_def)

lemma current_loop_ok:
  "i + length cp \<le> length vals \<Longrightarrow>
   \<exists>vals1. currentParticipation_loop cfg i cp vals = Inr vals1 \<and> length vals1 = length vals"
proof (induction cp arbitrary: i vals)
  case Nil
  then show ?case by simp
next
  case (Cons b bs)
  from Cons.prems have il: "i < length vals" by simp
  from mark_attester_ok [OF il] obtain vals1 where
    m: "mark_attester b (TimelyTargetFlagIndex cfg) i IsActiveCurrentEpoch
          (\<lambda>v. v\<lparr>IsCurrentEpochTargetAttester := True\<rparr>) vals = Inr vals1"
       "length vals1 = length vals"
    by blast
  from Cons.prems m(2) have "Suc i + length bs \<le> length vals1" by simp
  from Cons.IH [OF this] m show ?case by auto
qed

lemma previous_loop_ok:
  "i + length pp \<le> length vals \<Longrightarrow>
   \<exists>vals1. previousParticipation_loop cfg i pp vals = Inr vals1 \<and> length vals1 = length vals"
proof (induction pp arbitrary: i vals)
  case Nil
  then show ?case by simp
next
  case (Cons b bs)
  from Cons.prems have il: "i < length vals" by simp
  from mark_attester_ok [OF il] obtain v1 where
    m1: "mark_attester b (TimelySourceFlagIndex cfg) i IsActivePrevEpoch
          (\<lambda>v. v\<lparr>IsPrevEpochAttester := True\<rparr>) vals = Inr v1" "length v1 = length vals"
    by blast
  from il m1(2) have "i < length v1" by simp
  from mark_attester_ok [OF this] obtain v2 where
    m2: "mark_attester b (TimelyTargetFlagIndex cfg) i IsActivePrevEpoch
          (\<lambda>v. v\<lparr>IsPrevEpochTargetAttester := True\<rparr>) v1 = Inr v2" "length v2 = length v1"
    by blast
  from il m1(2) m2(2) have "i < length v2" by simp
  from mark_attester_ok [OF this] obtain v3 where
    m3: "mark_attester b (TimelyHeadFlagIndex cfg) i IsActivePrevEpoch
          (\<lambda>v. v\<lparr>IsPrevEpochHeadAttester := True\<rparr>) v2 = Inr v3" "length v3 = length v2"
    by blast
  from Cons.prems m1(2) m2(2) m3(2) have "Suc i + length bs \<le> length v3" by simp
  from Cons.IH [OF this] m1 m2 m3 show ?case by (auto simp: bind_err_def)
qed

lemma participation_ok:
  assumes "length (currentEpochParticipation st) \<le> length vals"
      and "length (previousEpochParticipation st) \<le> length vals"
  shows "\<exists>vals1 bal1. ProcessEpochParticipation cfg st bal vals = Inr (vals1, bal1)
           \<and> length vals1 = length vals"
proof -
  from assms(1) current_loop_ok [of 0 "currentEpochParticipation st" vals cfg]
  obtain v1 where c: "currentParticipation_loop cfg 0 (currentEpochParticipation st) vals = Inr v1"
      "length v1 = length vals" by auto
  from assms(2) c(2) previous_loop_ok [of 0 "previousEpochParticipation st" v1 cfg]
  obtain v2 where p: "previousParticipation_loop cfg 0 (previousEpochParticipation st) v1 = Inr v2"
      "length v2 = length v1" by auto
  from c p show ?thesis by (simp add: ProcessEpochParticipation_def)
qed

lemma attestationDelta_no_index_panic:
  "attestationDelta cfg bal v m d leak \<noteq> Inl PanicIndexOutOfRange"
  by (auto simp: attestationDelta_def bind_err_def add_penalty_def add_reward_def Let_def
        split: sum.splits if_splits)


lemma delta_loop_ok:
  "i + length vs \<le> length (fst rp) \<Longrightarrow> length (snd rp) = length (fst rp) \<Longrightarrow>
   AttestationsDelta_loop cfg bal m d leak i vs rp = Inl PanicDivideByZero
   \<or> (\<exists>rs ps. AttestationsDelta_loop cfg bal m d leak i vs rp = Inr (rs, ps)
         \<and> length rs = length (fst rp) \<and> length ps = length (fst rp))"
proof (induction vs arbitrary: i rp)
  case Nil
  then show ?case by (cases rp) simp
next
  case (Cons v vs)
  show ?case
  proof (cases "attestationDelta cfg bal v m d leak")
    case (Inl e)
    then have "e = PanicDivideByZero"
      by (auto simp: attestationDelta_def bind_err_def add_penalty_def add_reward_def Let_def
            split: sum.splits if_splits)
    with Inl show ?thesis by simp
  next
    case (Inr x)
    let ?rp1 = "((fst rp)[i := fst x], (snd rp)[i := snd x])"
    from Cons.prems have il: "i < length (fst rp)" "i < length (snd rp)" by simp_all
    from Cons.prems have "Suc i + length vs \<le> length (fst ?rp1)"
        "length (snd ?rp1) = length (fst ?rp1)" by simp_all
    from Cons.IH [OF this] Inr il show ?thesis by simp
  qed
qed

lemma AttestationsDelta_ok:
  assumes "length vals \<le> length (validators st)"
  shows "AttestationsDelta cfg st bal vals = Inl PanicDivideByZero
       \<or> (\<exists>rs ps. AttestationsDelta cfg st bal vals = Inr (rs, ps)
             \<and> length rs = length (validators st) \<and> length ps = length (validators st))"
proof (cases "IntegerSquareRoot (ActiveCurrentEpoch bal) = 0")
  case True
  then show ?thesis by (simp add: AttestationsDelta_def Let_def)
next
  case False
  let ?rp = "(replicate (length (validators st)) (0::u64), replicate (length (validators st)) (0::u64))"
  from assms have "0 + length vals \<le> length (fst ?rp)" "length (snd ?rp) = length (fst ?rp)"
    by simp_all
  from delta_loop_ok [OF this] False show ?thesis
    by (simp add: AttestationsDelta_def Let_def)
qed

lemma rewards_loop_ok:
  "i + k \<le> length (fst vb) \<Longrightarrow> i + k \<le> length (snd vb) \<Longrightarrow>
   i + k \<le> length rs \<Longrightarrow> i + k \<le> length ps \<Longrightarrow>
   \<exists>vals1 bals1. ProcessRewardsAndPenaltiesPrecompute_loop k i rs ps vb = Inr (vals1, bals1)
      \<and> length vals1 = length (fst vb) \<and> length bals1 = length (snd vb)"
proof (induction k arbitrary: i vb)
  case 0
  then show ?case by (cases vb) simp
next
  case (Suc k)
  let ?before = "snd vb ! i"
  let ?after = "DecreaseBalanceWithVal (IncreaseBalanceWithVal ?before (rs ! i)) (ps ! i)"
  let ?vb1 = "((fst vb)[i := (fst vb ! i)\<lparr>BeforeEpochTransitionBalance := ?before,
                                        AfterEpochTransitionBalance := ?after\<rparr>],
              (snd vb)[i := ?after])"
  from Suc.prems have il: "i < length (fst vb)" "i < length (snd vb)" "i < length rs" "i < length ps"
    by simp_all
  from Suc.prems have "Suc i + k \<le> length (fst ?vb1)" "Suc i + k \<le> length (snd ?vb1)"
      "Suc i + k \<le> length rs" "Suc i + k \<le> length ps" by simp_all
  from Suc.IH [OF this] il show ?case by (simp add: Let_def)
qed

lemma rewards_ok:
  assumes "length vals = length (validators st)" "length (balances st) = length (validators st)"
  shows "ProcessRewardsAndPenaltiesPrecompute cfg st bal vals = Inl PanicDivideByZero
       \<or> (\<exists>bals1 vals1. ProcessRewardsAndPenaltiesPrecompute cfg st bal vals
              = Inr (st\<lparr>balances := bals1\<rparr>, vals1)
            \<and> length bals1 = length (balances st) \<and> length vals1 = length vals)"
proof (cases "CurrentEpoch st = 0")
  case True
  then have "ProcessRewardsAndPenaltiesPrecompute cfg st bal vals
               = Inr (st\<lparr>balances := balances st\<rparr>, vals)"
    by (simp add: ProcessRewardsAndPenaltiesPrecompute_def)
  then show ?thesis by blast
next
  case False
  from assms have "length vals \<le> length (validators st)" by simp
  from AttestationsDelta_ok [OF this, of cfg bal]
  show ?thesis
  proof
    assume "AttestationsDelta cfg st bal vals = Inl PanicDivideByZero"
    with False assms show ?thesis
      by (simp add: ProcessRewardsAndPenaltiesPrecompute_def)
  next
    assume "\<exists>rs ps. AttestationsDelta cfg st bal vals = Inr (rs, ps)
             \<and> length rs = length (validators st) \<and> length ps = length (validators st)"
    then obtain rs ps where d: "AttestationsDelta cfg st bal vals = Inr (rs, ps)"
        "length rs = length (validators st)" "length ps = length (validators st)" by blast
    let ?vb = "(vals, balances st)"
    from assms d have "0 + length (validators st) \<le> length (fst ?vb)"
        "0 + length (validators st) \<le> length (snd ?vb)"
        "0 + length (validators st) \<le> length rs" "0 + length (validators st) \<le> length ps"
      by simp_all
    from rewards_loop_ok [OF this] obtain vals1 bals1 where
      l: "ProcessRewardsAndPenaltiesPrecompute_loop (length (validators st)) 0 rs ps ?vb
            = Inr (vals1, bals1)" "length vals1 = length vals" "length bals1 = length (balances st)"
      by auto
    with False assms d have "ProcessRewardsAndPenaltiesPrecompute cfg st bal vals
               = Inr (st\<lparr>balances := bals1\<rparr>, vals1)"
      by (simp add: ProcessRewardsAndPenaltiesPrecompute_def)
    with l(2,3) show ?thesis by blast
  qed
qed

lemma validatorFunc_no_index_panic:
  "validatorFunc inc etw ms pBal idx val s \<noteq> Inl PanicIndexOutOfRange"
  by (simp add: validatorFunc_def DecreaseBalance_def Let_def)

lemma apply_loop_no_index_panic:
  "snd (ApplyToEveryValidator_loop (validatorFunc inc etw ms pBal) idx vs s)
     \<noteq> Some PanicIndexOutOfRange"
proof (induction vs arbitrary: idx s)
  case Nil
  then show ?case by simp
next
  case (Cons val vs)
  show ?case
  proof (cases "validatorFunc inc etw ms pBal idx val s")
    case (Inl e)
    with validatorFunc_no_index_panic [of inc etw ms pBal idx val s] show ?thesis by auto
  next
    case (Inr s1)
    with Cons.IH [of "Suc idx" s1] show ?thesis by simp
  qed
qed

lemma slashings_no_index_panic:
  "snd (ProcessSlashingsPrecompute cfg s pBal) \<noteq> Some PanicIndexOutOfRange"
  using apply_loop_no_index_panic
  by (simp add: ProcessSlashingsPrecompute_def ApplyToEveryValidator_def Let_def)

lemma rotation_no_index_panic:
  "bind_err (ProcessParticipationFlagUpdates s)
     (ProcessSyncCommitteeUpdates cfg nsc usc) \<noteq> Inl PanicIndexOutOfRange"
  by (simp add: ProcessParticipationFlagUpdates_def ProcessSyncCommitteeUpdates_def bind_err_def
        Let_def split: option.splits)

lemma scores_ok:
  assumes "length vals \<le> length (inactivityScores st)"
  shows "\<exists>sc vals1. ProcessInactivityScores cfg st vals = Inr (st\<lparr>inactivityScores := sc\<rparr>, vals1)
           \<and> length vals1 = length vals"
proof (cases "CurrentEpoch st = GenesisEpoch cfg")
  case True
  then have "ProcessInactivityScores cfg st vals
               = Inr (st\<lparr>inactivityScores := inactivityScores st\<rparr>, vals)"
    by (simp add: ProcessInactivityScores_def)
  then show ?thesis by blast
next
  case False
  from assms have "0 + length vals \<le> length (inactivityScores st)" by simp
  from scores_loop [OF this, of cfg
         "IsInInactivityLeak cfg (PrevEpoch st) (finalizedCheckpointEpoch st)"]
  obtain vs' sc' where
    r: "ProcessInactivityScores_loop cfg
          (IsInInactivityLeak cfg (PrevEpoch st) (finalizedCheckpointEpoch st)) 0 vals
          (inactivityScores st) = Inr (vs', sc')" "length vs' = length vals"
    by blast
  with False have "ProcessInactivityScores cfg st vals = Inr (st\<lparr>inactivityScores := sc'\<rparr>, vs')"
    by (simp add: ProcessInactivityScores_def Let_def)
  with r(2) show ?thesis by blast
qed

lemma rewards_no_index_panic:
  "ProcessRewardsAndPenaltiesPrecompute cfg st bal vals \<noteq> Inl PanicIndexOutOfRange"
proof (cases "CurrentEpoch st = 0")
  case True
  then show ?thesis by (simp add: ProcessRewardsAndPenaltiesPrecompute_def)
next
  case False
  show ?thesis
  proof (cases "length vals = length (validators st) \<and> length (balances st) = length (validators st)")
    case True
    then have "length vals = length (validators st)" "length (balances st) = length (validators st)"
      by simp_all
    from rewards_ok [OF this, of cfg bal] show ?thesis by auto
  next
    case mismatch: False
    with False have "ProcessRewardsAndPenaltiesPrecompute cfg st bal vals = Inl ErrInconsistent"
      by (auto simp: ProcessRewardsAndPenaltiesPrecompute_def Let_def)
    then show ?thesis by simp
  qed
qed

lemma init_no_index_panic:
  "InitializeEpochValidators st \<noteq> Inl PanicIndexOutOfRange"
proof (cases "length (validators st) \<le> length (inactivityScores st)")
  case True
  from init_ok [OF this] show ?thesis by auto
next
  case False
  then show ?thesis by (simp add: InitializeEpochValidators_def Let_def)
qed

lemma pipeline_short_scores:
  assumes "length (inactivityScores st) < length (validators st)"
  shows "ProcessEpoch cfg nsc usc st = Inl ErrInconsistent"
  using assms
  by (simp add: ProcessEpoch_def bind_err_def InitializeEpochValidators_def Let_def)

lemma pipeline_prefix:
  assumes "length (validators st) \<le> length (inactivityScores st)"
      and "length (currentEpochParticipation st) \<le> length (validators st)"
      and "length (previousEpochParticipation st) \<le> length (validators st)"
  shows "\<exists>vals bal vals1 bal1 sc vals2.
           InitializeEpochValidators st = Inr (vals, bal)
         \<and> ProcessEpochParticipation cfg st bal vals = Inr (vals1, bal1)
         \<and> ProcessInactivityScores cfg st vals1 = Inr (st\<lparr>inactivityScores := sc\<rparr>, vals2)
         \<and> length vals2 = length (validators st)"
proof -
  from assms(1) init_ok [of st] obtain vals bal where
    i: "InitializeEpochValidators st = Inr (vals, bal)" "length vals = length (validators st)"
    by auto
  from assms(2,3) i(2) participation_ok [of st vals cfg bal] obtain vals1 bal1 where
    p: "ProcessEpochParticipation cfg st bal vals = Inr (vals1, bal1)" "length vals1 = length vals"
    by auto
  from assms(1) i(2) p(2) scores_ok [of vals1 st cfg] obtain sc vals2 where
    s: "ProcessInactivityScores cfg st vals1 = Inr (st\<lparr>inactivityScores := sc\<rparr>, vals2)"
       "length vals2 = length vals1"
    by auto
  from i p s show ?thesis by auto
qed

lemma pipeline_no_index_panic:
  assumes "length (currentEpochParticipation st) \<le> length (validators st)"
      and "length (previousEpochParticipation st) \<le> length (validators st)"
  shows "ProcessEpoch cfg nsc usc st \<noteq> Inl PanicIndexOutOfRange"
proof (cases "length (validators st) \<le> length (inactivityScores st)")
  case False
  then have "ProcessEpoch cfg nsc usc st = Inl ErrInconsistent"
    by (intro pipeline_short_scores) simp
  then show ?thesis by simp
next
  case True
  from pipeline_prefix [OF True assms, of cfg] obtain vals bal vals1 bal1 sc vals2 where
    i: "InitializeEpochValidators st = Inr (vals, bal)" and
    p: "ProcessEpochParticipation cfg st bal vals = Inr (vals1, bal1)" and
    s: "ProcessInactivityScores cfg st vals1 = Inr (st\<lparr>inactivityScores := sc\<rparr>, vals2)"
    by blast
  let ?st1 = "st\<lparr>inactivityScores := sc\<rparr>"
  show ?thesis
  proof (cases "ProcessRewardsAndPenaltiesPrecompute cfg ?st1 bal1 vals2")
    case (Inl e)
    with rewards_no_index_panic [of cfg ?st1 bal1 vals2] have "e \<noteq> PanicIndexOutOfRange"
      by auto
    with i p s Inl show ?thesis by (simp add: ProcessEpoch_def bind_err_def)
  next
    case (Inr sv)
    obtain s3 e where sl: "ProcessSlashingsPrecompute cfg (fst sv) bal1 = (s3, e)"
      by (cases "ProcessSlashingsPrecompute cfg (fst sv) bal1")
    with slashings_no_index_panic [of cfg "fst sv" bal1] have ne: "e \<noteq> Some PanicIndexOutOfRange"
      by simp
    from i p s Inr sl ne rotation_no_index_panic [of s3 cfg nsc usc] show ?thesis
      by (cases e) (simp_all add: ProcessEpoch_def bind_err_def)
  qed
qed

lemma pipeline_inconsistent_balances:
  assumes "length (validators st) \<le> length (inactivityScores st)"
      and "length (currentEpochParticipation st) \<le> length (validators st)"
      and "length (previousEpochParticipation st) \<le> length (validators st)"
      and "CurrentEpoch st \<noteq> 0"
      and "length (balances st) \<noteq> length (validators st)"
  shows "ProcessEpoch cfg nsc usc st = Inl ErrInconsistent"
proof -
  from pipeline_prefix [OF assms(1-3), of cfg] obtain vals bal vals1 bal1 sc vals2 where
    i: "InitializeEpochValidators st = Inr (vals, bal)" and
    p: "ProcessEpochParticipation cfg st bal vals = Inr (vals1, bal1)" and
    s: "ProcessInactivityScores cfg st vals1 = Inr (st\<lparr>inactivityScores := sc\<rparr>, vals2)" and
    l: "length vals2 = length (validators st)"
    by blast
  let ?st1 = "st\<lparr>inactivityScores := sc\<rparr>"
  from assms(4,5) l have "ProcessRewardsAndPenaltiesPrecompute cfg ?st1 bal1 vals2 = Inl ErrInconsistent"
    by (simp add: ProcessRewardsAndPenaltiesPrecompute_def CurrentEpoch_def Let_def)
  with i p s show ?thesis by (simp add: ProcessEpoch_def bind_err_def)
qed

lemma participation_no_index_panic:
  assumes "length (currentEpochParticipation st) \<le> length vals"
      and "length (previousEpochParticipation st) \<le> length vals"
  shows "ProcessEpochParticipation cfg st bal vals \<noteq> Inl PanicIndexOutOfRange"
  using participation_ok [OF assms, of cfg bal] by auto

lemma scores_no_index_panic:
  assumes "length vals \<le> length (inactivityScores st)"
  shows "ProcessInactivityScores cfg st vals \<noteq> Inl PanicIndexOutOfRange"
  using scores_ok [OF assms, of cfg] by auto

lemmas pipeline_defs =
  ProcessEpoch_def bind_err_def InitializeEpochValidators_def ProcessEpochParticipation_def
  ProcessInactivityScores_def ProcessRewardsAndPenaltiesPrecompute_def AttestationsDelta_def
  ProcessSlashingsPrecompute_def ProcessParticipationFlagUpdates_def
  ProcessSyncCommitteeUpdates_def mark_attester_def HasValidatorFlag_def UpdateBalance_def
  attestationDelta_def add_reward_def add_penalty_def updated_inactivity_score_def
  EligibleForRewards_def IsInInactivityLeak_def IsActiveValidatorUsingTrie_def
  IncreaseBalanceWithVal_def DecreaseBalanceWithVal_def Min_u64_def
  CurrentEpoch_def PrevEpoch_def NextEpoch_def

lemmas pipeline_example_defs =
  exampleConfig_def exampleState_def activeEntry_def exampleSelection_def exampleCacheUpdate_def

text \<open>
  What the theorem on the lengths leaves out: a participation list with more entries than the
  registry. \<^verbatim>\<open>ProcessEpochParticipation\<close> has no test of the lengths, and a flag bit
  in an entry past the end of the precompute list makes it read \<^verbatim>\<open>vals[i]\<close> out of
  range.
\<close>

lemma longer_participation_list_panics:
  "ProcessEpoch exampleConfig exampleSelection exampleCacheUpdate
     (exampleState\<lparr>currentEpochParticipation := [7, 7]\<rparr>) = Inl PanicIndexOutOfRange"
  by (simp add: pipeline_defs pipeline_example_defs isqrt_example Let_def)

text \<open>
  A participation list with fewer entries than the registry is not rejected either: the
  validators without an entry count as not having attested.
\<close>

lemma shorter_participation_list_is_accepted:
  "ProcessEpoch exampleConfig exampleSelection exampleCacheUpdate
     (exampleState\<lparr>currentEpochParticipation := [], previousEpochParticipation := []\<rparr>)
   = Inr (exampleState\<lparr>balances := [31992844580], currentEpochParticipation := [0],
            previousEpochParticipation := [], inactivityScores := [0]\<rparr>)"
  by (simp add: pipeline_defs pipeline_example_defs isqrt_example Let_def)

text \<open>
  C2, as the code has it. \<^verbatim>\<open>InitializeEpochValidators\<close> fails with the consistency
  error when the inactivity-score list is shorter than the registry, and then so does the
  whole sequence of steps; it accepts a score list that is at least as long as the
  registry. \<^verbatim>\<open>ProcessRewardsAndPenaltiesPrecompute\<close>, outside the genesis epoch, fails
  with the consistency error when the precompute list differs in length from the registry
  or from the balance list; so the sequence of steps ends with that error for a state,
  outside the genesis epoch, whose balance list differs in length from the registry
  (when the score list covers the registry and no participation list is longer than it).
  For every state in which neither participation list is longer than the registry,
  whatever the other lengths are, no step of the sequence indexes past the end of a list.
  Taken alone, \<^verbatim>\<open>InitializeEpochValidators\<close>,
  \<^verbatim>\<open>ProcessRewardsAndPenaltiesPrecompute\<close> and \<^verbatim>\<open>ProcessSlashingsPrecompute\<close>
  never index out of range, \<^verbatim>\<open>ProcessEpochParticipation\<close> does not when no
  participation list is longer than the precompute list, and
  \<^verbatim>\<open>ProcessInactivityScores\<close> does not when the precompute list is no longer than the
  score list.
\<close>

theorem length_checks:
  "(length (inactivityScores st) < length (validators st) \<longrightarrow>
      InitializeEpochValidators st = Inl ErrInconsistent
      \<and> ProcessEpoch cfg NextSyncCommittee UpdateSyncCommitteeCache st = Inl ErrInconsistent)
   \<and> (length (validators st) \<le> length (inactivityScores st) \<longrightarrow>
      (\<exists>ps b. InitializeEpochValidators st = Inr (ps, b) \<and> length ps = length (validators st)))
   \<and> (CurrentEpoch st \<noteq> 0
        \<and> (length vals \<noteq> length (validators st) \<or> length vals \<noteq> length (balances st)) \<longrightarrow>
      ProcessRewardsAndPenaltiesPrecompute cfg st bal vals = Inl ErrInconsistent)
   \<and> (length (currentEpochParticipation st) \<le> length (validators st)
        \<and> length (previousEpochParticipation st) \<le> length (validators st) \<longrightarrow>
      ProcessEpoch cfg NextSyncCommittee UpdateSyncCommitteeCache st \<noteq> Inl PanicIndexOutOfRange
      \<and> (length (validators st) \<le> length (inactivityScores st) \<and> CurrentEpoch st \<noteq> 0
           \<and> length (balances st) \<noteq> length (validators st) \<longrightarrow>
         ProcessEpoch cfg NextSyncCommittee UpdateSyncCommitteeCache st = Inl ErrInconsistent))
   \<and> InitializeEpochValidators st \<noteq> Inl PanicIndexOutOfRange
   \<and> (length (currentEpochParticipation st) \<le> length vals
        \<and> length (previousEpochParticipation st) \<le> length vals \<longrightarrow>
      ProcessEpochParticipation cfg st bal vals \<noteq> Inl PanicIndexOutOfRange)
   \<and> (length vals \<le> length (inactivityScores st) \<longrightarrow>
      ProcessInactivityScores cfg st vals \<noteq> Inl PanicIndexOutOfRange)
   \<and> ProcessRewardsAndPenaltiesPrecompute cfg st bal vals \<noteq> Inl PanicIndexOutOfRange
   \<and> snd (ProcessSlashingsPrecompute cfg st bal) \<noteq> Some PanicIndexOutOfRange"
proof (intro conjI impI)
  assume a: "length (inactivityScores st) < length (validators st)"
  then show "InitializeEpochValidators st = Inl ErrInconsistent"
    by (simp add: InitializeEpochValidators_def Let_def)
  from a show "ProcessEpoch cfg NextSyncCommittee UpdateSyncCommitteeCache st = Inl ErrInconsistent"
    by (rule pipeline_short_scores)
next
  assume "length (validators st) \<le> length (inactivityScores st)"
  then show "\<exists>ps b. InitializeEpochValidators st = Inr (ps, b) \<and> length ps = length (validators st)"
    by (rule init_ok)
next
  assume "CurrentEpoch st \<noteq> 0
        \<and> (length vals \<noteq> length (validators st) \<or> length vals \<noteq> length (balances st))"
  then show "ProcessRewardsAndPenaltiesPrecompute cfg st bal vals = Inl ErrInconsistent"
    by (auto simp: ProcessRewardsAndPenaltiesPrecompute_def Let_def)
next
  assume "length (currentEpochParticipation st) \<le> length (validators st)
        \<and> length (previousEpochParticipation st) \<le> length (validators st)"
  then show "ProcessEpoch cfg NextSyncCommittee UpdateSyncCommitteeCache st
               \<noteq> Inl PanicIndexOutOfRange"
    by (intro pipeline_no_index_panic) simp_all
next
  assume "length (currentEpochParticipation st) \<le> length (validators st)
        \<and> length (previousEpochParticipation st) \<le> length (validators st)"
     and "length (validators st) \<le> length (inactivityScores st) \<and> CurrentEpoch st \<noteq> 0
           \<and> length (balances st) \<noteq> length (validators st)"
  then show "ProcessEpoch cfg NextSyncCommittee UpdateSyncCommitteeCache st = Inl ErrInconsistent"
    by (intro pipeline_inconsistent_balances) simp_all
next
  show "InitializeEpochValidators st \<noteq> Inl PanicIndexOutOfRange"
    by (rule init_no_index_panic)
next
  assume "length (currentEpochParticipation st) \<le> length vals
        \<and> length (previousEpochParticipation st) \<le> length vals"
  then show "ProcessEpochParticipation cfg st bal vals \<noteq> Inl PanicIndexOutOfRange"
    by (intro participation_no_index_panic) simp_all
next
  assume "length vals \<le> length (inactivityScores st)"
  then show "ProcessInactivityScores cfg st vals \<noteq> Inl PanicIndexOutOfRange"
    by (rule scores_no_index_panic)
next
  show "ProcessRewardsAndPenaltiesPrecompute cfg st bal vals \<noteq> Inl PanicIndexOutOfRange"
    by (rule rewards_no_index_panic)
next
  show "snd (ProcessSlashingsPrecompute cfg st bal) \<noteq> Some PanicIndexOutOfRange"
    by (rule slashings_no_index_panic)
qed

theorem length_checks_witness:
  "length (inactivityScores (exampleState\<lparr>inactivityScores := []\<rparr>))
     < length (validators (exampleState\<lparr>inactivityScores := []\<rparr>))
   \<and> InitializeEpochValidators (exampleState\<lparr>inactivityScores := []\<rparr>) = Inl ErrInconsistent
   \<and> ProcessEpoch exampleConfig exampleSelection exampleCacheUpdate
        (exampleState\<lparr>inactivityScores := []\<rparr>) = Inl ErrInconsistent
   \<and> length (validators (exampleState\<lparr>inactivityScores := [0, 0]\<rparr>))
        \<le> length (inactivityScores (exampleState\<lparr>inactivityScores := [0, 0]\<rparr>))
   \<and> (\<exists>ps b. InitializeEpochValidators (exampleState\<lparr>inactivityScores := [0, 0]\<rparr>) = Inr (ps, b)
          \<and> length ps = length (validators (exampleState\<lparr>inactivityScores := [0, 0]\<rparr>)))
   \<and> CurrentEpoch exampleState \<noteq> 0
   \<and> length ([] :: Validator list) \<noteq> length (validators exampleState)
   \<and> ProcessRewardsAndPenaltiesPrecompute exampleConfig exampleState exampleBalance []
        = Inl ErrInconsistent
   \<and> length (currentEpochParticipation (exampleState\<lparr>inactivityScores := [0, 0], currentEpochParticipation := []\<rparr>))
        \<le> length (validators (exampleState\<lparr>inactivityScores := [0, 0], currentEpochParticipation := []\<rparr>))
   \<and> length (previousEpochParticipation (exampleState\<lparr>inactivityScores := [0, 0], currentEpochParticipation := []\<rparr>))
        \<le> length (validators (exampleState\<lparr>inactivityScores := [0, 0], currentEpochParticipation := []\<rparr>))
   \<and> ProcessEpoch exampleConfig exampleSelection exampleCacheUpdate
        (exampleState\<lparr>inactivityScores := [0, 0], currentEpochParticipation := []\<rparr>)
        \<noteq> Inl PanicIndexOutOfRange
   \<and> length (balances (exampleState\<lparr>balances := []\<rparr>))
        \<noteq> length (validators (exampleState\<lparr>balances := []\<rparr>))
   \<and> ProcessEpoch exampleConfig exampleSelection exampleCacheUpdate
        (exampleState\<lparr>balances := []\<rparr>) = Inl ErrInconsistent
   \<and> length (currentEpochParticipation exampleState) \<le> length [idleValidator]
   \<and> length (previousEpochParticipation exampleState) \<le> length [idleValidator]
   \<and> length [idleValidator] \<le> length (inactivityScores exampleState)
   \<and> ProcessEpochParticipation exampleConfig exampleState exampleBalance [idleValidator]
        \<noteq> Inl PanicIndexOutOfRange
   \<and> ProcessInactivityScores exampleConfig exampleState [idleValidator]
        \<noteq> Inl PanicIndexOutOfRange"
proof -
  let ?A = "exampleState\<lparr>inactivityScores := []\<rparr>"
  let ?B = "exampleState\<lparr>inactivityScores := [0, 0]\<rparr>"
  let ?D = "exampleState\<lparr>inactivityScores := [0, 0], currentEpochParticipation := []\<rparr>"
  let ?E = "exampleState\<lparr>balances := []\<rparr>"
  have a: "length (inactivityScores ?A) < length (validators ?A)"
    by (simp add: exampleState_def)
  have b: "length (validators ?B) \<le> length (inactivityScores ?B)"
    by (simp add: exampleState_def)
  have c: "CurrentEpoch exampleState \<noteq> 0"
          "length ([] :: Validator list) \<noteq> length (validators exampleState)"
    by (simp_all add: CurrentEpoch_def exampleState_def)
  have d: "length (currentEpochParticipation ?D) \<le> length (validators ?D)"
          "length (previousEpochParticipation ?D) \<le> length (validators ?D)"
    by (simp_all add: exampleState_def)
  have e: "length (currentEpochParticipation ?E) \<le> length (validators ?E)"
          "length (previousEpochParticipation ?E) \<le> length (validators ?E)"
          "length (validators ?E) \<le> length (inactivityScores ?E)"
          "CurrentEpoch ?E \<noteq> 0"
          "length (balances ?E) \<noteq> length (validators ?E)"
    by (simp_all add: CurrentEpoch_def exampleState_def)
  have f: "length (currentEpochParticipation exampleState) \<le> length [idleValidator]"
          "length (previousEpochParticipation exampleState) \<le> length [idleValidator]"
          "length [idleValidator] \<le> length (inactivityScores exampleState)"
    by (simp_all add: exampleState_def)
  from length_checks [where st = ?A and cfg = exampleConfig
         and NextSyncCommittee = exampleSelection
         and UpdateSyncCommitteeCache = exampleCacheUpdate] a
  have r1: "InitializeEpochValidators ?A = Inl ErrInconsistent
          \<and> ProcessEpoch exampleConfig exampleSelection exampleCacheUpdate ?A = Inl ErrInconsistent"
    by blast
  from length_checks [where st = ?B] b
  have r2: "\<exists>ps b. InitializeEpochValidators ?B = Inr (ps, b) \<and> length ps = length (validators ?B)"
    by blast
  from length_checks [where st = exampleState and vals = "[]" and cfg = exampleConfig
         and bal = exampleBalance] c
  have r3: "ProcessRewardsAndPenaltiesPrecompute exampleConfig exampleState exampleBalance []
              = Inl ErrInconsistent"
    by blast
  from length_checks [where st = ?D and cfg = exampleConfig
         and NextSyncCommittee = exampleSelection
         and UpdateSyncCommitteeCache = exampleCacheUpdate] d
  have r4: "ProcessEpoch exampleConfig exampleSelection exampleCacheUpdate ?D
              \<noteq> Inl PanicIndexOutOfRange"
    by blast
  from length_checks [where st = ?E and cfg = exampleConfig
         and NextSyncCommittee = exampleSelection
         and UpdateSyncCommitteeCache = exampleCacheUpdate] e
  have r5: "ProcessEpoch exampleConfig exampleSelection exampleCacheUpdate ?E = Inl ErrInconsistent"
    by blast
  from length_checks [where st = exampleState and vals = "[idleValidator]"
         and cfg = exampleConfig and bal = exampleBalance] f
  have r6: "ProcessEpochParticipation exampleConfig exampleState exampleBalance [idleValidator]
              \<noteq> Inl PanicIndexOutOfRange
          \<and> ProcessInactivityScores exampleConfig exampleState [idleValidator]
              \<noteq> Inl PanicIndexOutOfRange"
    by blast
  from a b c d e(5) f r1 r2 r3 r4 r5 r6 show ?thesis by blast
qed

text \<open>
  C2 as the specification words it fails: a state whose inactivity-score list is longer
  than its registry does not have matching lengths, and yet every step succeeds and the
  sequence of steps ends without any error. \<^verbatim>\<open>InitializeEpochValidators\<close> only
  rejects a score list that is shorter than the registry.
\<close>

theorem longer_score_list_is_accepted:
  "length (inactivityScores (exampleState\<lparr>inactivityScores := [0, 0]\<rparr>))
     \<noteq> length (validators (exampleState\<lparr>inactivityScores := [0, 0]\<rparr>))
   \<and> ProcessEpoch exampleConfig exampleSelection exampleCacheUpdate
        (exampleState\<lparr>inactivityScores := [0, 0]\<rparr>)
      = Inr (exampleState\<lparr>inactivityScores := [0, 0], balances := [32009659817],
               previousEpochParticipation := [7], currentEpochParticipation := [0]\<rparr>)"
  by (simp add: pipeline_defs pipeline_example_defs isqrt_example Let_def)

end
